theory Spec2Isabelle
  imports Main
begin

section \<open>The two-tier cache of gcs-cache: remote bucket first, local cache service second\<close>

text \<open>
  The development embeds \<^verbatim>\<open>src/utils/gcsCache.ts\<close> and the two functions of
  \<^verbatim>\<open>src/utils/actionUtils.ts\<close> it depends on (\<^verbatim>\<open>isGCSAvailable\<close>,
  \<^verbatim>\<open>isExactKeyMatch\<close>).

  The code is asynchronous TypeScript whose every step is an awaited call to a
  collaborator: the action toolkit (\<^verbatim>\<open>core.getInput\<close>), the storage SDK, the tar helpers,
  the filesystem and the local cache service (\<^verbatim>\<open>@actions/cache\<close>). The embedding keeps
  the control flow of the code and takes the collaborators as a \<^emph>\<open>world\<close>: a record giving,
  for each call and its arguments, the outcome of the call (a value, or a thrown error).
  A computation returns its outcome together with the trace of the calls it made and of
  the warnings it logged, in order. Lines logged at info and debug level are not part of
  the trace.

  The answer of a collaborator depends on the call and its arguments only: within one run
  a repeated call gets the same answer, and the answers of different calls are not linked
  (an upload that succeeds says nothing about the probe that follows it). The functions
  of the two files that no property below is about (\<^verbatim>\<open>isFeatureAvailable\<close>,
  \<^verbatim>\<open>isGhes\<close>, the input parsers) are not embedded.
\<close>

subsection \<open>Data\<close>

text \<open>The three members of the enum \<^verbatim>\<open>CompressionMethod\<close> of the cache toolkit.\<close>

datatype CompressionMethod = Gzip | ZstdWithoutLong | Zstd

text \<open>A thrown JavaScript \<^verbatim>\<open>Error\<close>; the code reads only its \<^verbatim>\<open>message\<close>.\<close>

datatype exn = Error (message: string)

text \<open>
  \<^verbatim>\<open>DownloadOptions\<close> and \<^verbatim>\<open>UploadOptions\<close> of the cache toolkit. The code reads
  \<^verbatim>\<open>lookupOnly\<close> and hands everything else to the local cache service untouched.
\<close>

record DownloadOptions =
  lookupOnly :: "bool option"
  timeoutInMs :: "nat option"

record UploadOptions =
  uploadChunkSize :: "nat option"

text \<open>
  The calls a computation makes, with their arguments, and the warnings it logs
  (\<^verbatim>\<open>core.warning\<close>).
\<close>

datatype event =
    GetInput string
  | NewStorage
  | GetCompressionMethod
  | BucketExists string
  | ResolvePaths "string list"
  | Mkdir string
  | CreateTempDirectory
  | CreateTar string "string list" CompressionMethod
  | ListTar string CompressionMethod
  | StatSync string
  | UploadFile string string string
  | FileExists string string
  | GetFiles string string
  | DownloadFile string string string
  | GetArchiveFileSizeInBytes string
  | ExtractTar string CompressionMethod
  | ExistsSync string
  | UnlinkFile string
  | LocalRestoreCache "string list" string "string list option" "DownloadOptions option" "bool option"
  | LocalSaveCache "string list" string "UploadOptions option" "bool option"
  | Warning string

text \<open>
  The world: what each collaborator answers. \<open>Inl\<close> is a thrown error.
  \<^item> \<open>getInput name\<close>: \<^verbatim>\<open>core.getInput(name)\<close>;
  \<^item> \<open>newStorage\<close>: \<^verbatim>\<open>new Storage()\<close>;
  \<^item> \<open>getCompressionMethod\<close>, \<open>getCacheFileName\<close>, \<open>resolvePaths\<close>,
    \<open>createTempDirectory\<close>, \<open>unlinkFile\<close>, \<open>getArchiveFileSizeInBytes\<close>: the functions of
    \<^verbatim>\<open>@actions/cache/lib/internal/cacheUtils\<close>;
  \<^item> \<open>createTar\<close>, \<open>listTar\<close>, \<open>extractTar\<close>: \<^verbatim>\<open>@actions/cache/lib/internal/tar\<close>;
  \<^item> \<open>path_join\<close>, \<open>path_dirname\<close>, \<open>mkdir\<close>, \<open>statSync\<close> (the \<^verbatim>\<open>size\<close> it reports),
    \<open>existsSync\<close>: Node's \<^verbatim>\<open>path\<close> and \<^verbatim>\<open>fs\<close>;
  \<^item> \<open>bucketExists b\<close>: \<^verbatim>\<open>storage.bucket(b).exists()\<close>;
    \<open>fileExists b p\<close>: \<^verbatim>\<open>storage.bucket(b).file(p).exists()\<close>;
    \<open>uploadFile b f p\<close>: \<^verbatim>\<open>storage.bucket(b).upload(f, {destination: p, ...})\<close>;
    \<open>downloadFile b p f\<close>: \<^verbatim>\<open>storage.bucket(b).file(p).download({destination: f})\<close>;
    \<open>getFiles b prefix\<close>: \<^verbatim>\<open>storage.bucket(b).getFiles({prefix})\<close>, the names of the files;
  \<^item> \<open>cache_restoreCache\<close>, \<open>cache_saveCache\<close>: the local cache service,
    \<^verbatim>\<open>cache.restoreCache\<close> and \<^verbatim>\<open>cache.saveCache\<close> of \<^verbatim>\<open>@actions/cache\<close>.
\<close>

record world =
  getInput :: "string \<Rightarrow> exn + string"
  newStorage :: "exn + unit"
  getCompressionMethod :: "exn + CompressionMethod"
  getCacheFileName :: "CompressionMethod \<Rightarrow> string"
  path_join :: "string \<Rightarrow> string \<Rightarrow> string"
  path_dirname :: "string \<Rightarrow> string"
  bucketExists :: "string \<Rightarrow> exn + bool"
  resolvePaths :: "string list \<Rightarrow> exn + string list"
  mkdir :: "string \<Rightarrow> exn + unit"
  createTempDirectory :: "exn + string"
  createTar :: "string \<Rightarrow> string list \<Rightarrow> CompressionMethod \<Rightarrow> exn + unit"
  listTar :: "string \<Rightarrow> CompressionMethod \<Rightarrow> exn + unit"
  statSync :: "string \<Rightarrow> exn + nat"
  uploadFile :: "string \<Rightarrow> string \<Rightarrow> string \<Rightarrow> exn + unit"
  fileExists :: "string \<Rightarrow> string \<Rightarrow> exn + bool"
  getFiles :: "string \<Rightarrow> string \<Rightarrow> exn + string list"
  downloadFile :: "string \<Rightarrow> string \<Rightarrow> string \<Rightarrow> exn + unit"
  getArchiveFileSizeInBytes :: "string \<Rightarrow> exn + nat"
  extractTar :: "string \<Rightarrow> CompressionMethod \<Rightarrow> exn + unit"
  existsSync :: "string \<Rightarrow> exn + bool"
  unlinkFile :: "string \<Rightarrow> exn + unit"
  cache_restoreCache :: "string list \<Rightarrow> string \<Rightarrow> string list option \<Rightarrow>
    DownloadOptions option \<Rightarrow> bool option \<Rightarrow> exn + string option"
  cache_saveCache :: "string list \<Rightarrow> string \<Rightarrow> UploadOptions option \<Rightarrow>
    bool option \<Rightarrow> exn + int"

subsection \<open>Computations: an outcome and a trace\<close>

type_synonym 'a io = "(exn + 'a) \<times> event list"

definition return_io :: "'a \<Rightarrow> 'a io" where
  "return_io x = (Inr x, [])"

definition throw :: "exn \<Rightarrow> 'a io" where
  "throw e = (Inl e, [])"

text \<open>A call to a collaborator: the event, then the outcome the world gives.\<close>

definition call :: "event \<Rightarrow> exn + 'a \<Rightarrow> 'a io" where
  "call ev outcome = (outcome, [ev])"

definition core_warning :: "string \<Rightarrow> unit io" where
  "core_warning msg = (Inr (), [Warning msg])"

text \<open>Sequencing: a thrown error skips the rest.\<close>

definition bind_io :: "'a io \<Rightarrow> ('a \<Rightarrow> 'b io) \<Rightarrow> 'b io" where
  "bind_io m f =
     (case fst m of
        Inl e \<Rightarrow> (Inl e, snd m)
      | Inr x \<Rightarrow> (fst (f x), snd m @ snd (f x)))"

text \<open>\<^verbatim>\<open>try { m } catch (error) { h error }\<close>\<close>

definition try_catch :: "'a io \<Rightarrow> (exn \<Rightarrow> 'a io) \<Rightarrow> 'a io" where
  "try_catch m h =
     (case fst m of
        Inl e \<Rightarrow> (fst (h e), snd m @ snd (h e))
      | Inr x \<Rightarrow> (Inr x, snd m))"

text \<open>
  \<^verbatim>\<open>try { m } finally { fin }\<close>: the finaliser runs on every exit of \<open>m\<close>; the outcome
  is that of \<open>m\<close> unless the finaliser itself throws.
\<close>

definition try_finally :: "'a io \<Rightarrow> unit io \<Rightarrow> 'a io" where
  "try_finally m fin =
     (case fst fin of
        Inl e \<Rightarrow> (Inl e, snd m @ snd fin)
      | Inr _ \<Rightarrow> (fst m, snd m @ snd fin))"

text \<open>JavaScript truthiness of a \<^verbatim>\<open>string | undefined\<close> and of a \<^verbatim>\<open>number\<close>.\<close>

definition truthy_string :: "string option \<Rightarrow> bool" where
  "truthy_string s = (case s of None \<Rightarrow> False | Some t \<Rightarrow> t \<noteq> [])"

definition truthy_number :: "int \<Rightarrow> bool" where
  "truthy_number n = (n \<noteq> 0)"

subsection \<open>Constants\<close>

definition DEFAULT_PATH_PREFIX :: string where
  "DEFAULT_PATH_PREFIX = ''github-cache''"

text \<open>
  \<^verbatim>\<open>Inputs.GCSBucket\<close> and \<^verbatim>\<open>Inputs.GCSPathPrefix\<close> come from \<^verbatim>\<open>src/constants.ts\<close>,
  which is not among the sources; they are the input names that \<^verbatim>\<open>save/action.yml\<close>
  declares. No result below depends on their values.
\<close>

definition Inputs_GCSBucket :: string where
  "Inputs_GCSBucket = ''gcs-bucket''"

definition Inputs_GCSPathPrefix :: string where
  "Inputs_GCSPathPrefix = ''gcs-path-prefix''"

subsection \<open>actionUtils.ts\<close>

text \<open>\<^verbatim>\<open>isGCSAvailable\<close>: is a bucket name configured? No call to the storage service.\<close>

definition isGCSAvailable :: "world \<Rightarrow> bool io" where
  "isGCSAvailable w =
     try_catch
       (bind_io (call (GetInput Inputs_GCSBucket) (getInput w Inputs_GCSBucket)) (\<lambda>bucket.
          if bucket = [] then return_io False
          else return_io True))
       (\<lambda>error. return_io False)"


subsection \<open>gcsCache.ts: the remote tier\<close>

text \<open>\<^verbatim>\<open>getGCSClient\<close>: \<open>Some ()\<close> is the client, \<open>None\<close> is \<^verbatim>\<open>null\<close>.\<close>

definition getGCSClient :: "world \<Rightarrow> unit option io" where
  "getGCSClient w =
     try_catch
       (bind_io (call NewStorage (newStorage w)) (\<lambda>storage. return_io (Some storage)))
       (\<lambda>error.
          bind_io (core_warning (''Failed to initialize GCS client: '' @ message error)) (\<lambda>_.
          return_io None))"

definition getGCSPath :: "world \<Rightarrow> string \<Rightarrow> string \<Rightarrow> CompressionMethod \<Rightarrow> string" where
  "getGCSPath w pathPrefix key compressionMethod =
     pathPrefix @ ''/'' @ key @ ''.'' @ getCacheFileName w compressionMethod"

definition checkFileExists :: "world \<Rightarrow> string \<Rightarrow> string \<Rightarrow> bool io" where
  "checkFileExists w bucket path =
     try_catch
       (call (FileExists bucket path) (fileExists w bucket path))
       (\<lambda>error.
          bind_io (core_warning (''Error checking file existence: '' @ message error)) (\<lambda>_.
          throw error))"

text \<open>The loop of \<^verbatim>\<open>findFileOnGCS\<close> over the candidate keys.\<close>

fun findFileOnGCS_keys ::
  "world \<Rightarrow> string \<Rightarrow> string \<Rightarrow> CompressionMethod \<Rightarrow> string list \<Rightarrow> string option io" where
  "findFileOnGCS_keys w bucket pathPrefix compressionMethod [] = return_io None"
| "findFileOnGCS_keys w bucket pathPrefix compressionMethod (key # keys) =
     (let gcsPath = getGCSPath w pathPrefix key compressionMethod in
      bind_io
        (try_catch
           (checkFileExists w bucket gcsPath)
           (\<lambda>error.
              bind_io (core_warning (''Error checking if file exists at '' @ bucket @ ''/'' @
                         gcsPath @ '': '' @ message error)) (\<lambda>_.
              return_io False)))
        (\<lambda>found.
           if found then return_io (Some gcsPath)
           else findFileOnGCS_keys w bucket pathPrefix compressionMethod keys))"

text \<open>
  \<^verbatim>\<open>findFileOnGCS\<close>: the loop; when it finds nothing, the files under the prefix are
  listed for the log (a failure of the listing is a warning), and the result is
  \<^verbatim>\<open>undefined\<close>.
\<close>

definition findFileOnGCS ::
  "world \<Rightarrow> string \<Rightarrow> string \<Rightarrow> string list \<Rightarrow> CompressionMethod \<Rightarrow> string option io" where
  "findFileOnGCS w bucket pathPrefix keys compressionMethod =
     bind_io (findFileOnGCS_keys w bucket pathPrefix compressionMethod keys) (\<lambda>found.
       case found of
         Some gcsPath \<Rightarrow> return_io (Some gcsPath)
       | None \<Rightarrow>
           bind_io
             (try_catch
                (bind_io (call (GetFiles bucket pathPrefix) (getFiles w bucket pathPrefix))
                   (\<lambda>files. return_io ()))
                (\<lambda>error.
                   core_warning (''Error listing files in prefix '' @ pathPrefix @ '': '' @
                     message error)))
             (\<lambda>_. return_io None))"

text \<open>
  The bucket check that opens both \<^verbatim>\<open>restoreFromGCS\<close> (lines 130-140) and
  \<^verbatim>\<open>saveToGCS\<close> (lines 270-280): \<open>True\<close> to go on, \<open>False\<close> when the function returns
  its failure value (\<^verbatim>\<open>undefined\<close>, \<open>-1\<close>) there.
\<close>

definition verifyBucket :: "world \<Rightarrow> string \<Rightarrow> bool io" where
  "verifyBucket w bucket =
     try_catch
       (bind_io (call (BucketExists bucket) (bucketExists w bucket)) (\<lambda>exists.
          if \<not> exists then
            bind_io (core_warning (''Bucket '' @ bucket @
                       '' does not exist or is not accessible'')) (\<lambda>_.
            return_io False)
          else return_io True))
       (\<lambda>error.
          bind_io (core_warning (''Error checking bucket existence: '' @ message error)) (\<lambda>_.
          return_io False))"

text \<open>
  \<^verbatim>\<open>restoreFromGCS\<close>, lines 143-152: the directory of every requested path is created;
  a failure is a warning and the loop goes on.
\<close>

fun restoreFromGCS_mkdirs :: "world \<Rightarrow> string list \<Rightarrow> unit io" where
  "restoreFromGCS_mkdirs w [] = return_io ()"
| "restoreFromGCS_mkdirs w (cachePath # paths) =
     (let dirPath = path_dirname w cachePath in
      bind_io
        (try_catch
           (call (Mkdir dirPath) (mkdir w dirPath))
           (\<lambda>error.
              core_warning (''Failed to create directory '' @ dirPath @ '': '' @
                message error)))
        (\<lambda>_. restoreFromGCS_mkdirs w paths))"

text \<open>
  \<^verbatim>\<open>restoreFromGCS\<close>, lines 210-222: does one of the requested paths exist after the
  extraction? The loop stops at the first that does; an error of the check is a warning.
\<close>

fun restoreFromGCS_verify :: "world \<Rightarrow> string list \<Rightarrow> bool io" where
  "restoreFromGCS_verify w [] = return_io False"
| "restoreFromGCS_verify w (cachePath # paths) =
     bind_io
       (try_catch
          (call (ExistsSync cachePath) (existsSync w cachePath))
          (\<lambda>error.
             bind_io (core_warning (''Error checking path '' @ cachePath @ '': '' @
                        message error)) (\<lambda>_.
             return_io False)))
       (\<lambda>exists.
          if exists then return_io True
          else restoreFromGCS_verify w paths)"

text \<open>
  The body of the \<^verbatim>\<open>try\<close> block of \<^verbatim>\<open>restoreFromGCS\<close>, lines 178-230: download, size
  check, listing, extraction, verification. The inner \<^verbatim>\<open>try\<close> around \<^verbatim>\<open>statSync\<close> yields
  \<open>True\<close> when the function returns \<^verbatim>\<open>undefined\<close> from there.
\<close>

definition restoreFromGCS_try ::
  "world \<Rightarrow> string \<Rightarrow> string \<Rightarrow> string \<Rightarrow> CompressionMethod \<Rightarrow> string list \<Rightarrow>
   string option io" where
  "restoreFromGCS_try w bucket gcsPath archivePath compressionMethod paths =
     bind_io (call (DownloadFile bucket gcsPath archivePath)
                (downloadFile w bucket gcsPath archivePath)) (\<lambda>_.
     bind_io
       (try_catch
          (bind_io (call (StatSync archivePath) (statSync w archivePath)) (\<lambda>size.
             if size = 0 then
               bind_io (core_warning ''Downloaded archive file is empty'') (\<lambda>_.
               return_io True)
             else return_io False))
          (\<lambda>error.
             bind_io (core_warning (''Error checking downloaded archive: '' @
                        message error)) (\<lambda>_.
             return_io True)))
       (\<lambda>returned.
     if returned then return_io None
     else
     bind_io (call (ListTar archivePath compressionMethod)
                (listTar w archivePath compressionMethod)) (\<lambda>_.
     bind_io (call (GetArchiveFileSizeInBytes archivePath)
                (getArchiveFileSizeInBytes w archivePath)) (\<lambda>archiveFileSize.
     bind_io (call (ExtractTar archivePath compressionMethod)
                (extractTar w archivePath compressionMethod)) (\<lambda>_.
     bind_io (restoreFromGCS_verify w paths) (\<lambda>extractionSucceeded.
     if extractionSucceeded then return_io (Some gcsPath)
     else
       bind_io (core_warning ''Extraction completed but cache files not found'') (\<lambda>_.
       return_io None)))))))"

text \<open>The \<^verbatim>\<open>finally\<close> block of both transfers: the temporary archive is unlinked; an
  error of the unlinking is logged at debug level and dropped.\<close>

definition unlinkArchive :: "world \<Rightarrow> string \<Rightarrow> unit io" where
  "unlinkArchive w archivePath =
     try_catch
       (call (UnlinkFile archivePath) (unlinkFile w archivePath))
       (\<lambda>error. return_io ())"

text \<open>
  The \<^verbatim>\<open>try\<close> statement of \<^verbatim>\<open>restoreFromGCS\<close>, lines 177-243: the body, the
  \<^verbatim>\<open>catch\<close> that turns any error of the body into \<^verbatim>\<open>undefined\<close>, and the
  \<^verbatim>\<open>finally\<close>.
\<close>

definition restoreFromGCS_transfer ::
  "world \<Rightarrow> string \<Rightarrow> string \<Rightarrow> string \<Rightarrow> CompressionMethod \<Rightarrow> string list \<Rightarrow>
   string option io" where
  "restoreFromGCS_transfer w bucket gcsPath archivePath compressionMethod paths =
     try_finally
       (try_catch
          (restoreFromGCS_try w bucket gcsPath archivePath compressionMethod paths)
          (\<lambda>error.
             bind_io (core_warning (''Failed to restore from GCS: '' @ message error)) (\<lambda>_.
             return_io None)))
       (unlinkArchive w archivePath)"

definition restoreFromGCS ::
  "world \<Rightarrow> string list \<Rightarrow> string \<Rightarrow> string list option \<Rightarrow> DownloadOptions option \<Rightarrow>
   string option io" where
  "restoreFromGCS w paths primaryKey restoreKeysArg options =
     (let restoreKeys = (case restoreKeysArg of None \<Rightarrow> [] | Some ks \<Rightarrow> ks) in
      bind_io (getGCSClient w) (\<lambda>storage.
      case storage of
        None \<Rightarrow>
          bind_io (core_warning ''Failed to initialize GCS client, cannot restore cache'')
            (\<lambda>_. return_io None)
      | Some _ \<Rightarrow>
      bind_io (call (GetInput Inputs_GCSBucket) (getInput w Inputs_GCSBucket)) (\<lambda>bucket.
      bind_io (call (GetInput Inputs_GCSPathPrefix) (getInput w Inputs_GCSPathPrefix))
        (\<lambda>prefixInput.
      let pathPrefix = (if prefixInput = [] then DEFAULT_PATH_PREFIX else prefixInput) in
      bind_io (call GetCompressionMethod (getCompressionMethod w)) (\<lambda>compressionMethod.
      bind_io (verifyBucket w bucket) (\<lambda>connected.
      if \<not> connected then return_io None
      else
      bind_io (restoreFromGCS_mkdirs w paths) (\<lambda>_.
      bind_io (call CreateTempDirectory (createTempDirectory w)) (\<lambda>archiveFolder.
      let archivePath = path_join w archiveFolder (getCacheFileName w compressionMethod);
          keys = primaryKey # restoreKeys in
      bind_io (findFileOnGCS w bucket pathPrefix keys compressionMethod) (\<lambda>found.
      case found of
        None \<Rightarrow> return_io None
      | Some gcsPath \<Rightarrow>
          if gcsPath = [] then return_io None
          else if (case options of None \<Rightarrow> False | Some opts \<Rightarrow> lookupOnly opts = Some True)
          then return_io (Some gcsPath)
          else
            restoreFromGCS_transfer w bucket gcsPath archivePath compressionMethod
              paths)))))))))"

text \<open>
  The body of the \<^verbatim>\<open>try\<close> block of \<^verbatim>\<open>saveToGCS\<close>, lines 301-346: archive, listing,
  size check, upload, existence probe of the uploaded object. The metadata of the upload
  (key, creator, date) is not part of the model.
\<close>

definition saveToGCS_try ::
  "world \<Rightarrow> string \<Rightarrow> string \<Rightarrow> string \<Rightarrow> CompressionMethod \<Rightarrow> string \<Rightarrow> string \<Rightarrow>
   string list \<Rightarrow> int io" where
  "saveToGCS_try w bucket pathPrefix key compressionMethod archiveFolder archivePath cachePaths =
     bind_io (call (CreateTar archiveFolder cachePaths compressionMethod)
                (createTar w archiveFolder cachePaths compressionMethod)) (\<lambda>_.
     bind_io (call (ListTar archivePath compressionMethod)
                (listTar w archivePath compressionMethod)) (\<lambda>_.
     bind_io
       (try_catch
          (bind_io (call (StatSync archivePath) (statSync w archivePath)) (\<lambda>size.
             if size = 0 then
               bind_io (core_warning ''Archive file is empty, no data to upload'') (\<lambda>_.
               return_io True)
             else return_io False))
          (\<lambda>error.
             bind_io (core_warning (''Error checking archive file: '' @ message error)) (\<lambda>_.
             return_io True)))
       (\<lambda>returned.
     if returned then return_io (- 1)
     else
     let gcsPath = getGCSPath w pathPrefix key compressionMethod in
     bind_io (call (UploadFile bucket archivePath gcsPath)
                (uploadFile w bucket archivePath gcsPath)) (\<lambda>_.
     bind_io (call (FileExists bucket gcsPath) (fileExists w bucket gcsPath)) (\<lambda>exists.
     if exists then return_io 1
     else
       bind_io (core_warning ''Upload appeared to succeed but file not found in GCS'') (\<lambda>_.
       return_io (- 1)))))))"

text \<open>
  The \<^verbatim>\<open>try\<close> statement of \<^verbatim>\<open>saveToGCS\<close>, lines 300-359: the body, the \<^verbatim>\<open>catch\<close>
  that turns any error of the body into \<open>-1\<close>, and the \<^verbatim>\<open>finally\<close>.
\<close>

definition saveToGCS_transfer ::
  "world \<Rightarrow> string \<Rightarrow> string \<Rightarrow> string \<Rightarrow> CompressionMethod \<Rightarrow> string \<Rightarrow> string \<Rightarrow>
   string list \<Rightarrow> int io" where
  "saveToGCS_transfer w bucket pathPrefix key compressionMethod archiveFolder archivePath
     cachePaths =
     try_finally
       (try_catch
          (saveToGCS_try w bucket pathPrefix key compressionMethod archiveFolder archivePath
             cachePaths)
          (\<lambda>error.
             bind_io (core_warning (''Error creating or uploading cache: '' @
                        message error)) (\<lambda>_.
             return_io (- 1))))
       (unlinkArchive w archivePath)"

text \<open>The error that \<^verbatim>\<open>saveToGCS\<close> throws at line 287.\<close>

definition PathValidationError :: exn where
  "PathValidationError = Error (''Path Validation Error: Path(s) specified in the action '' @
     ''for caching do(es) not exist, hence no cache is being saved.'')"

definition saveToGCS :: "world \<Rightarrow> string list \<Rightarrow> string \<Rightarrow> int io" where
  "saveToGCS w paths key =
     (let cacheId = - 1 in
      bind_io (getGCSClient w) (\<lambda>storage.
      case storage of
        None \<Rightarrow>
          bind_io (core_warning ''Failed to initialize GCS client, cannot save cache'')
            (\<lambda>_. return_io cacheId)
      | Some _ \<Rightarrow>
      bind_io (call (GetInput Inputs_GCSBucket) (getInput w Inputs_GCSBucket)) (\<lambda>bucket.
      bind_io (call (GetInput Inputs_GCSPathPrefix) (getInput w Inputs_GCSPathPrefix))
        (\<lambda>prefixInput.
      let pathPrefix = (if prefixInput = [] then DEFAULT_PATH_PREFIX else prefixInput) in
      bind_io (call GetCompressionMethod (getCompressionMethod w)) (\<lambda>compressionMethod.
      bind_io (verifyBucket w bucket) (\<lambda>connected.
      if \<not> connected then return_io (- 1)
      else
      bind_io (call (ResolvePaths paths) (resolvePaths w paths)) (\<lambda>cachePaths.
      if length cachePaths = 0 then throw PathValidationError
      else
      bind_io (call CreateTempDirectory (createTempDirectory w)) (\<lambda>archiveFolder.
      let archivePath = path_join w archiveFolder (getCacheFileName w compressionMethod) in
      saveToGCS_transfer w bucket pathPrefix key compressionMethod archiveFolder archivePath
        cachePaths))))))))"

subsection \<open>gcsCache.ts: the fallback coordinator\<close>

text \<open>
  \<^verbatim>\<open>restoreCache\<close>. The remote attempt yields \<open>Some result\<close> when the function returns
  \<open>result\<close> from inside the \<^verbatim>\<open>if (isGCSAvailable())\<close> block, \<open>None\<close> when control reaches
  the local cache service.
\<close>

definition restoreCache ::
  "world \<Rightarrow> string list \<Rightarrow> string \<Rightarrow> string list option \<Rightarrow> DownloadOptions option \<Rightarrow>
   bool option \<Rightarrow> string option io" where
  "restoreCache w paths primaryKey restoreKeys options enableCrossOsArchive =
     bind_io (isGCSAvailable w) (\<lambda>available.
     bind_io
       (if available then
          try_catch
            (bind_io (restoreFromGCS w paths primaryKey restoreKeys options) (\<lambda>result.
               if truthy_string result then return_io (Some result)
               else return_io None))
            (\<lambda>error.
               bind_io (core_warning (''Failed to restore from GCS: '' @ message error)) (\<lambda>_.
               return_io None))
        else return_io None)
       (\<lambda>returned.
          case returned of
            Some result \<Rightarrow> return_io result
          | None \<Rightarrow>
              call (LocalRestoreCache paths primaryKey restoreKeys options enableCrossOsArchive)
                (cache_restoreCache w paths primaryKey restoreKeys options
                   enableCrossOsArchive)))"

text \<open>\<^verbatim>\<open>saveCache\<close>, in the same way; \<^verbatim>\<open>if (result)\<close> tests a number.\<close>

definition saveCache ::
  "world \<Rightarrow> string list \<Rightarrow> string \<Rightarrow> UploadOptions option \<Rightarrow> bool option \<Rightarrow> int io" where
  "saveCache w paths key options enableCrossOsArchive =
     bind_io (isGCSAvailable w) (\<lambda>available.
     bind_io
       (if available then
          try_catch
            (bind_io (saveToGCS w paths key) (\<lambda>result.
               if truthy_number result then return_io (Some result)
               else
                 bind_io (core_warning ''Failed to save to GCS, falling back to GitHub cache'')
                   (\<lambda>_. return_io None)))
            (\<lambda>error.
               bind_io (core_warning (''Failed to save to GCS: '' @ message error)) (\<lambda>_.
               return_io None))
        else return_io None)
       (\<lambda>returned.
          case returned of
            Some result \<Rightarrow> return_io result
          | None \<Rightarrow>
              call (LocalSaveCache paths key options enableCrossOsArchive)
                (cache_saveCache w paths key options enableCrossOsArchive)))"

subsection \<open>Vocabulary of the properties\<close>

text \<open>
  The calls that precede the \<^verbatim>\<open>try\<close> statements of \<^verbatim>\<open>saveToGCS\<close> and
  \<^verbatim>\<open>restoreFromGCS\<close> (client, inputs, bucket check, path resolution, directories), and
  warnings; the two calls of the key resolver; the calls that go over the network to the
  bucket; the calls to the local cache service.
\<close>

fun setup_event :: "event \<Rightarrow> bool" where
  "setup_event (GetInput name) = True"
| "setup_event NewStorage = True"
| "setup_event GetCompressionMethod = True"
| "setup_event (BucketExists bucket) = True"
| "setup_event (ResolvePaths paths) = True"
| "setup_event (Mkdir dirPath) = True"
| "setup_event CreateTempDirectory = True"
| "setup_event (Warning msg) = True"
| "setup_event ev = False"

fun lookup_event :: "event \<Rightarrow> bool" where
  "lookup_event (FileExists bucket path) = True"
| "lookup_event (GetFiles bucket pathPrefix) = True"
| "lookup_event (Warning msg) = True"
| "lookup_event ev = False"

fun network_event :: "event \<Rightarrow> bool" where
  "network_event (BucketExists bucket) = True"
| "network_event (UploadFile bucket archivePath gcsPath) = True"
| "network_event (FileExists bucket path) = True"
| "network_event (GetFiles bucket pathPrefix) = True"
| "network_event (DownloadFile bucket gcsPath archivePath) = True"
| "network_event ev = False"

fun local_service_event :: "event \<Rightarrow> bool" where
  "local_service_event (LocalRestoreCache paths primaryKey restoreKeys options crossOs) = True"
| "local_service_event (LocalSaveCache paths key options crossOs) = True"
| "local_service_event ev = False"

text \<open>The object paths probed with \<^verbatim>\<open>file(path).exists()\<close>, in the order of the probes.\<close>

fun probed_paths :: "event list \<Rightarrow> string list" where
  "probed_paths [] = []"
| "probed_paths (FileExists bucket path # tr) = path # probed_paths tr"
| "probed_paths (ev # tr) = probed_paths tr"

text \<open>
  The state of the remote store, as the resolver sees it: the object at a path exists when
  the probe answers \<^verbatim>\<open>true\<close> (an error or \<^verbatim>\<open>false\<close> is not a match). The candidate paths
  of a key list, in order.
\<close>

definition object_found :: "world \<Rightarrow> string \<Rightarrow> string \<Rightarrow> bool" where
  "object_found w bucket path = (fileExists w bucket path = Inr True)"

definition candidate_paths ::
  "world \<Rightarrow> string \<Rightarrow> CompressionMethod \<Rightarrow> string list \<Rightarrow> string list" where
  "candidate_paths w pathPrefix compressionMethod keys =
     map (\<lambda>key. getGCSPath w pathPrefix key compressionMethod) keys"

text \<open>
  A file leaves the disk through \<^verbatim>\<open>unlinkFile\<close> only: it is deleted in a run when the run
  unlinks it and the unlinking succeeds.
\<close>

definition deleted_in :: "world \<Rightarrow> event list \<Rightarrow> string \<Rightarrow> bool" where
  "deleted_in w tr file = (UnlinkFile file \<in> set tr \<and> unlinkFile w file = Inr ())"

subsection \<open>Worlds for the examples\<close>

text \<open>
  A world in which every collaborator succeeds: the bucket \<open>b\<close> is configured and exists,
  every probed object exists, archives have ten bytes, the local cache service saves under
  id \<open>7\<close> and restores nothing. The file names are those of the cache toolkit.
\<close>

definition fair_world :: world where
  "fair_world =
     \<lparr> getInput = (\<lambda>name. if name = Inputs_GCSBucket then Inr ''b'' else Inr []),
       newStorage = Inr (),
       getCompressionMethod = Inr Zstd,
       getCacheFileName = (\<lambda>cm. if cm = Gzip then ''cache.tgz'' else ''cache.tzst''),
       path_join = (\<lambda>dir file. dir @ ''/'' @ file),
       path_dirname = (\<lambda>p. ''.''),
       bucketExists = (\<lambda>bucket. Inr True),
       resolvePaths = (\<lambda>paths. Inr paths),
       mkdir = (\<lambda>dirPath. Inr ()),
       createTempDirectory = Inr ''t'',
       createTar = (\<lambda>folder paths cm. Inr ()),
       listTar = (\<lambda>archivePath cm. Inr ()),
       statSync = (\<lambda>file. Inr 10),
       uploadFile = (\<lambda>bucket archivePath gcsPath. Inr ()),
       fileExists = (\<lambda>bucket path. Inr True),
       getFiles = (\<lambda>bucket pathPrefix. Inr []),
       downloadFile = (\<lambda>bucket gcsPath archivePath. Inr ()),
       getArchiveFileSizeInBytes = (\<lambda>file. Inr 10),
       extractTar = (\<lambda>archivePath cm. Inr ()),
       existsSync = (\<lambda>file. Inr True),
       unlinkFile = (\<lambda>file. Inr ()),
       cache_restoreCache = (\<lambda>paths primaryKey restoreKeys options crossOs. Inr None),
       cache_saveCache = (\<lambda>paths key options crossOs. Inr 7) \<rparr>"

text \<open>Variants of the world, one collaborator changed in each.\<close>

text \<open>The configured bucket does not exist.\<close>

definition missing_bucket_world :: world where
  "missing_bucket_world = fair_world\<lparr>bucketExists := (\<lambda>bucket. Inr False)\<rparr>"

text \<open>The path patterns resolve to nothing.\<close>

definition no_paths_world :: world where
  "no_paths_world = fair_world\<lparr>resolvePaths := (\<lambda>paths. Inr [])\<rparr>"

text \<open>The bucket holds one object, that of key \<open>k2\<close> under the default prefix.\<close>

definition only_k2_world :: world where
  "only_k2_world =
     fair_world\<lparr>fileExists := (\<lambda>bucket path. Inr (path = ''github-cache/k2.cache.tzst''))\<rparr>"

text \<open>As before, and the probe of the object of key \<open>k1\<close> fails.\<close>

definition erroring_probe_world :: world where
  "erroring_probe_world =
     fair_world\<lparr>fileExists := (\<lambda>bucket path.
        if path = ''github-cache/k1.cache.tzst'' then Inl (Error ''timeout'')
        else Inr (path = ''github-cache/k2.cache.tzst''))\<rparr>"

text \<open>The bucket holds nothing; the local cache service restores the primary key.\<close>

definition remote_miss_world :: world where
  "remote_miss_world =
     fair_world\<lparr>fileExists := (\<lambda>bucket path. Inr False),
                cache_restoreCache :=
                  (\<lambda>paths primaryKey restoreKeys options crossOs. Inr (Some primaryKey))\<rparr>"

text \<open>As before, and no temporary directory can be created.\<close>

definition broken_tempdir_world :: world where
  "broken_tempdir_world = remote_miss_world\<lparr>createTempDirectory := Inl (Error ''ENOSPC'')\<rparr>"

text \<open>Every archive on disk has zero bytes.\<close>

definition empty_archive_world :: world where
  "empty_archive_world = fair_world\<lparr>statSync := (\<lambda>file. Inr 0)\<rparr>"

text \<open>As before, and listing an archive fails.\<close>

definition unlisted_empty_archive_world :: world where
  "unlisted_empty_archive_world =
     empty_archive_world\<lparr>listTar := (\<lambda>archivePath cm. Inl (Error ''tar: error''))\<rparr>"

text \<open>The bucket holds nothing, also after an upload that reported no error.\<close>

definition lost_upload_world :: world where
  "lost_upload_world = fair_world\<lparr>fileExists := (\<lambda>bucket path. Inr False)\<rparr>"

text \<open>No input is set: no bucket is configured.\<close>

definition unconfigured_world :: world where
  "unconfigured_world = fair_world\<lparr>getInput := (\<lambda>name. Inr [])\<rparr>"

text \<open>Unlinking a file fails.\<close>

definition stuck_unlink_world :: world where
  "stuck_unlink_world = fair_world\<lparr>unlinkFile := (\<lambda>file. Inl (Error ''EBUSY''))\<rparr>"


section \<open>Lemmas\<close>

subsection \<open>The combinators\<close>

lemma fst_return_io [simp]: "fst (return_io x) = Inr x"
  by (simp add: return_io_def)

lemma snd_return_io [simp]: "snd (return_io x) = []"
  by (simp add: return_io_def)

lemma fst_throw [simp]: "fst (throw e) = Inl e"
  by (simp add: throw_def)

lemma snd_throw [simp]: "snd (throw e) = []"
  by (simp add: throw_def)

lemma fst_call [simp]: "fst (call ev outcome) = outcome"
  by (simp add: call_def)

lemma snd_call [simp]: "snd (call ev outcome) = [ev]"
  by (simp add: call_def)

lemma fst_core_warning [simp]: "fst (core_warning msg) = Inr ()"
  by (simp add: core_warning_def)

lemma snd_core_warning [simp]: "snd (core_warning msg) = [Warning msg]"
  by (simp add: core_warning_def)

lemma fst_bind_io [simp]:
  "fst (bind_io m f) = (case fst m of Inl e \<Rightarrow> Inl e | Inr x \<Rightarrow> fst (f x))"
  by (simp add: bind_io_def split: sum.splits)

lemma snd_bind_io [simp]:
  "snd (bind_io m f) = (case fst m of Inl e \<Rightarrow> snd m | Inr x \<Rightarrow> snd m @ snd (f x))"
  by (simp add: bind_io_def split: sum.splits)

lemma fst_try_catch [simp]:
  "fst (try_catch m h) = (case fst m of Inl e \<Rightarrow> fst (h e) | Inr x \<Rightarrow> Inr x)"
  by (simp add: try_catch_def split: sum.splits)

lemma snd_try_catch [simp]:
  "snd (try_catch m h) = (case fst m of Inl e \<Rightarrow> snd m @ snd (h e) | Inr x \<Rightarrow> snd m)"
  by (simp add: try_catch_def split: sum.splits)

lemma fst_try_finally [simp]:
  "fst (try_finally m fin) = (case fst fin of Inl e \<Rightarrow> Inl e | Inr u \<Rightarrow> fst m)"
  by (simp add: try_finally_def split: sum.splits)

lemma snd_try_finally [simp]:
  "snd (try_finally m fin) = snd m @ snd fin"
  by (simp add: try_finally_def split: sum.splits)

text \<open>The definitions to unfold when a run in a given world is computed.\<close>

lemmas run_defs = saveToGCS_def saveToGCS_transfer_def saveToGCS_try_def restoreFromGCS_def
  restoreFromGCS_transfer_def restoreFromGCS_try_def findFileOnGCS_def verifyBucket_def
  getGCSClient_def checkFileExists_def unlinkArchive_def getGCSPath_def isGCSAvailable_def
  saveCache_def restoreCache_def Let_def Inputs_GCSBucket_def Inputs_GCSPathPrefix_def
  DEFAULT_PATH_PREFIX_def truthy_string_def truthy_number_def fair_world_def prod_eq_iff

subsection \<open>Event classes\<close>

lemma setup_event_in:
  "list_all setup_event tr \<Longrightarrow> ev \<in> set tr \<Longrightarrow> setup_event ev"
  by (simp add: list_all_iff)

lemma setup_not_local: "setup_event ev \<Longrightarrow> \<not> local_service_event ev"
  by (cases ev) simp_all

lemma lookup_not_local: "lookup_event ev \<Longrightarrow> \<not> local_service_event ev"
  by (cases ev) simp_all

subsection \<open>The small steps: client, bucket check, unlinking\<close>

lemma fst_unlinkArchive [simp]: "fst (unlinkArchive w file) = Inr ()"
  by (simp add: unlinkArchive_def split: sum.splits)

lemma snd_unlinkArchive [simp]: "snd (unlinkArchive w file) = [UnlinkFile file]"
  by (simp add: unlinkArchive_def split: sum.splits)

lemma fst_getGCSClient:
  "fst (getGCSClient w) = Inr (case newStorage w of Inl e \<Rightarrow> None | Inr u \<Rightarrow> Some u)"
  by (simp add: getGCSClient_def split: sum.splits)

lemma snd_getGCSClient:
  "snd (getGCSClient w) = NewStorage #
     (case newStorage w of
        Inl e \<Rightarrow> [Warning (''Failed to initialize GCS client: '' @ message e)]
      | Inr u \<Rightarrow> [])"
  by (simp add: getGCSClient_def split: sum.splits)

lemma fst_verifyBucket:
  "fst (verifyBucket w bucket) = Inr (bucketExists w bucket = Inr True)"
  by (simp add: verifyBucket_def split: sum.splits)

lemma snd_verifyBucket:
  "snd (verifyBucket w bucket) = BucketExists bucket #
     (case bucketExists w bucket of
        Inl e \<Rightarrow> [Warning (''Error checking bucket existence: '' @ message e)]
      | Inr exists \<Rightarrow>
          if exists then []
          else [Warning (''Bucket '' @ bucket @ '' does not exist or is not accessible'')])"
  by (simp add: verifyBucket_def split: sum.splits)

subsection \<open>The key resolver\<close>

lemma getGCSPath_not_empty [simp]: "getGCSPath w pathPrefix key cm \<noteq> []"
  by (simp add: getGCSPath_def)

lemma getGCSPath_inject [simp]:
  "getGCSPath w pathPrefix key cm = getGCSPath w pathPrefix key' cm \<longleftrightarrow> key = key'"
  by (simp add: getGCSPath_def)



lemma fst_checkFileExists [simp]:
  "fst (checkFileExists w bucket path) = fileExists w bucket path"
  by (simp add: checkFileExists_def split: sum.splits)

lemma snd_checkFileExists [simp]:
  "snd (checkFileExists w bucket path) = FileExists bucket path #
     (case fileExists w bucket path of
        Inl e \<Rightarrow> [Warning (''Error checking file existence: '' @ message e)]
      | Inr found \<Rightarrow> [])"
  by (simp add: checkFileExists_def split: sum.splits)

lemma fst_findFileOnGCS_keys:
  "fst (findFileOnGCS_keys w bucket pathPrefix cm keys) =
     Inr (find (object_found w bucket) (candidate_paths w pathPrefix cm keys))"
  by (induction keys)
     (simp_all add: Let_def candidate_paths_def object_found_def split: sum.splits)

lemma fst_findFileOnGCS:
  "fst (findFileOnGCS w bucket pathPrefix keys cm) =
     Inr (find (object_found w bucket) (candidate_paths w pathPrefix cm keys))"
  by (simp add: findFileOnGCS_def fst_findFileOnGCS_keys split: option.splits sum.splits)

lemma lookup_events_findFileOnGCS_keys:
  "list_all lookup_event (snd (findFileOnGCS_keys w bucket pathPrefix cm keys))"
  by (induction keys) (simp_all add: Let_def split: sum.splits)

lemma lookup_events_findFileOnGCS:
  "list_all lookup_event (snd (findFileOnGCS w bucket pathPrefix keys cm))"
  by (simp add: findFileOnGCS_def fst_findFileOnGCS_keys lookup_events_findFileOnGCS_keys
        split: option.splits sum.splits)

lemma probed_paths_append [simp]:
  "probed_paths (tr @ tr') = probed_paths tr @ probed_paths tr'"
  by (induction tr rule: probed_paths.induct) simp_all

lemma probed_paths_findFileOnGCS_keys:
  "probed_paths (snd (findFileOnGCS_keys w bucket pathPrefix cm keys)) =
     takeWhile (\<lambda>p. \<not> object_found w bucket p) (candidate_paths w pathPrefix cm keys) @
     (case find (object_found w bucket) (candidate_paths w pathPrefix cm keys) of
        None \<Rightarrow> [] | Some p \<Rightarrow> [p])"
  by (induction keys)
     (simp_all add: Let_def candidate_paths_def object_found_def split: sum.splits)

lemma probed_paths_findFileOnGCS:
  "probed_paths (snd (findFileOnGCS w bucket pathPrefix keys cm)) =
     takeWhile (\<lambda>p. \<not> object_found w bucket p) (candidate_paths w pathPrefix cm keys) @
     (case find (object_found w bucket) (candidate_paths w pathPrefix cm keys) of
        None \<Rightarrow> [] | Some p \<Rightarrow> [p])"
  by (simp add: findFileOnGCS_def fst_findFileOnGCS_keys probed_paths_findFileOnGCS_keys
        split: option.splits sum.splits)

lemma find_candidate_not_empty:
  "find P (candidate_paths w pathPrefix cm keys) = Some p \<Longrightarrow> p \<noteq> []"
  by (auto simp: find_Some_iff candidate_paths_def)

lemma find_append_none:
  "\<forall>x \<in> set xs. \<not> P x \<Longrightarrow> find P (xs @ ys) = find P ys"
  by (induction xs) simp_all

lemma find_unique:
  "x \<in> set xs \<Longrightarrow> \<forall>y. P y \<longleftrightarrow> y = x \<Longrightarrow> find P xs = Some x"
  by (induction xs) auto

lemma snd_findFileOnGCS_keys_skip:
  assumes "\<forall>k \<in> set before. \<not> object_found w bucket (getGCSPath w pathPrefix k cm)"
  shows "\<exists>pre. snd (findFileOnGCS_keys w bucket pathPrefix cm (before @ rest)) =
           pre @ snd (findFileOnGCS_keys w bucket pathPrefix cm rest)"
  using assms
proof (induction before)
  case Nil
  then show ?case by simp
next
  case (Cons k before)
  then obtain pre where
    "snd (findFileOnGCS_keys w bucket pathPrefix cm (before @ rest)) =
       pre @ snd (findFileOnGCS_keys w bucket pathPrefix cm rest)"
    by auto
  with Cons.prems show ?case
    by (cases "fileExists w bucket (getGCSPath w pathPrefix k cm)")
       (simp_all add: Let_def object_found_def)
qed

lemma snd_findFileOnGCS_keys_error:
  assumes "fileExists w bucket (getGCSPath w pathPrefix key cm) = Inl e"
  shows "snd (findFileOnGCS_keys w bucket pathPrefix cm (key # rest)) =
    [FileExists bucket (getGCSPath w pathPrefix key cm),
     Warning (''Error checking file existence: '' @ message e),
     Warning (''Error checking if file exists at '' @ bucket @ ''/'' @
       getGCSPath w pathPrefix key cm @ '': '' @ message e)] @
    snd (findFileOnGCS_keys w bucket pathPrefix cm rest)"
  using assms by (simp add: Let_def)

lemma snd_findFileOnGCS_keys_subset:
  "set (snd (findFileOnGCS_keys w bucket pathPrefix cm keys)) \<subseteq>
   set (snd (findFileOnGCS w bucket pathPrefix keys cm))"
  by (simp add: findFileOnGCS_def fst_findFileOnGCS_keys split: option.splits sum.splits)

subsection \<open>The try statement of saveToGCS\<close>

lemma saveToGCS_transfer_result:
  "fst (saveToGCS_transfer w bucket pathPrefix key cm folder file cachePaths) = Inr 1 \<or>
   fst (saveToGCS_transfer w bucket pathPrefix key cm folder file cachePaths) = Inr (- 1)"
  by (simp add: saveToGCS_transfer_def saveToGCS_try_def Let_def split: sum.splits)

lemma saveToGCS_transfer_last:
  "snd (saveToGCS_transfer w bucket pathPrefix key cm folder file cachePaths) \<noteq> [] \<and>
   last (snd (saveToGCS_transfer w bucket pathPrefix key cm folder file cachePaths)) = UnlinkFile file"
  by (simp add: saveToGCS_transfer_def)

lemma saveToGCS_transfer_CreateTar:
  "CreateTar f c m \<in> set (snd (saveToGCS_transfer w bucket pathPrefix key cm folder file cachePaths))
   \<Longrightarrow> f = folder \<and> c = cachePaths \<and> m = cm"
  by (auto simp add: saveToGCS_transfer_def saveToGCS_try_def Let_def split: sum.splits if_splits)

lemma saveToGCS_transfer_empty_archive:
  "statSync w file = Inr 0 \<Longrightarrow>
   fst (saveToGCS_transfer w bucket pathPrefix key cm folder file cachePaths) = Inr (- 1)"
  by (simp add: saveToGCS_transfer_def saveToGCS_try_def Let_def split: sum.splits)

lemma saveToGCS_transfer_UploadFile:
  "UploadFile b f p \<in> set (snd (saveToGCS_transfer w bucket pathPrefix key cm folder file cachePaths))
   \<Longrightarrow> b = bucket \<and> f = file \<and> p = getGCSPath w pathPrefix key cm"
  by (auto simp add: saveToGCS_transfer_def saveToGCS_try_def Let_def split: sum.splits if_splits)

lemma saveToGCS_transfer_FileExists:
  "FileExists b p \<in> set (snd (saveToGCS_transfer w bucket pathPrefix key cm folder file cachePaths))
   \<longleftrightarrow> b = bucket \<and> p = getGCSPath w pathPrefix key cm \<and>
     UploadFile bucket file (getGCSPath w pathPrefix key cm) \<in> set (snd (saveToGCS_transfer w bucket pathPrefix key cm folder file cachePaths)) \<and>
     uploadFile w bucket file (getGCSPath w pathPrefix key cm) = Inr ()"
  by (auto simp add: saveToGCS_transfer_def saveToGCS_try_def Let_def split: sum.splits if_splits)

lemma saveToGCS_transfer_success:
  "fst (saveToGCS_transfer w bucket pathPrefix key cm folder file cachePaths) = Inr 1 \<longleftrightarrow>
     FileExists bucket (getGCSPath w pathPrefix key cm) \<in> set (snd (saveToGCS_transfer w bucket pathPrefix key cm folder file cachePaths)) \<and>
     fileExists w bucket (getGCSPath w pathPrefix key cm) = Inr True"
  by (auto simp add: saveToGCS_transfer_def saveToGCS_try_def Let_def split: sum.splits if_splits)

subsection \<open>saveToGCS: the steps before the try statement\<close>

text \<open>
  Either the function leaves before the \<^verbatim>\<open>try\<close> statement, with a failure, or every step
  before it succeeded and the run is those seven calls followed by the statement.
\<close>

lemma saveToGCS_shape:
  "(list_all setup_event (snd (saveToGCS w paths key)) \<and>
      fst (saveToGCS w paths key) \<noteq> Inr 1) \<or>
   (\<exists>bucket prefixInput cm folder cachePaths.
      getInput w Inputs_GCSBucket = Inr bucket \<and>
      getInput w Inputs_GCSPathPrefix = Inr prefixInput \<and>
      getCompressionMethod w = Inr cm \<and>
      bucketExists w bucket = Inr True \<and>
      resolvePaths w paths = Inr cachePaths \<and> cachePaths \<noteq> [] \<and>
      createTempDirectory w = Inr folder \<and>
      fst (saveToGCS w paths key) =
        fst (saveToGCS_transfer w bucket
              (if prefixInput = [] then DEFAULT_PATH_PREFIX else prefixInput) key cm folder
              (path_join w folder (getCacheFileName w cm)) cachePaths) \<and>
      snd (saveToGCS w paths key) =
        [NewStorage, GetInput Inputs_GCSBucket, GetInput Inputs_GCSPathPrefix,
         GetCompressionMethod, BucketExists bucket, ResolvePaths paths, CreateTempDirectory] @
        snd (saveToGCS_transfer w bucket
              (if prefixInput = [] then DEFAULT_PATH_PREFIX else prefixInput) key cm folder
              (path_join w folder (getCacheFileName w cm)) cachePaths))"
  by (simp add: saveToGCS_def Let_def fst_getGCSClient snd_getGCSClient fst_verifyBucket snd_verifyBucket
       split: sum.splits option.splits) auto

lemma saveToGCS_reaches_transfer:
  assumes "ev \<in> set (snd (saveToGCS w paths key))" and "\<not> setup_event ev"
  shows "\<exists>bucket prefixInput pathPrefix cm folder cachePaths pre.
     getInput w Inputs_GCSBucket = Inr bucket \<and>
     getInput w Inputs_GCSPathPrefix = Inr prefixInput \<and>
     pathPrefix = (if prefixInput = [] then DEFAULT_PATH_PREFIX else prefixInput) \<and>
     getCompressionMethod w = Inr cm \<and>
     ev \<in> set (snd (saveToGCS_transfer w bucket pathPrefix key cm folder
                      (path_join w folder (getCacheFileName w cm)) cachePaths)) \<and>
     fst (saveToGCS w paths key) =
       fst (saveToGCS_transfer w bucket pathPrefix key cm folder
             (path_join w folder (getCacheFileName w cm)) cachePaths) \<and>
     snd (saveToGCS w paths key) =
       pre @ snd (saveToGCS_transfer w bucket pathPrefix key cm folder
             (path_join w folder (getCacheFileName w cm)) cachePaths) \<and>
     list_all setup_event pre"
proof -
  from assms have early: "\<not> list_all setup_event (snd (saveToGCS w paths key))"
    by (auto simp: list_all_iff)
  with saveToGCS_shape [of w paths key]
  obtain bucket prefixInput cm folder cachePaths where
    i: "getInput w Inputs_GCSBucket = Inr bucket"
      "getInput w Inputs_GCSPathPrefix = Inr prefixInput"
      "getCompressionMethod w = Inr cm"
    and r: "fst (saveToGCS w paths key) =
        fst (saveToGCS_transfer w bucket
              (if prefixInput = [] then DEFAULT_PATH_PREFIX else prefixInput) key cm folder
              (path_join w folder (getCacheFileName w cm)) cachePaths)"
    and t: "snd (saveToGCS w paths key) =
        [NewStorage, GetInput Inputs_GCSBucket, GetInput Inputs_GCSPathPrefix,
         GetCompressionMethod, BucketExists bucket, ResolvePaths paths, CreateTempDirectory] @
        snd (saveToGCS_transfer w bucket
              (if prefixInput = [] then DEFAULT_PATH_PREFIX else prefixInput) key cm folder
              (path_join w folder (getCacheFileName w cm)) cachePaths)"
    by blast
  from assms t have "ev \<in> set (snd (saveToGCS_transfer w bucket
              (if prefixInput = [] then DEFAULT_PATH_PREFIX else prefixInput) key cm folder
              (path_join w folder (getCacheFileName w cm)) cachePaths))"
    by auto
  moreover have "list_all setup_event
     [NewStorage, GetInput Inputs_GCSBucket, GetInput Inputs_GCSPathPrefix,
      GetCompressionMethod, BucketExists bucket, ResolvePaths paths, CreateTempDirectory]"
    by simp
  ultimately show ?thesis using i r t by blast
qed

subsection \<open>The try statement of restoreFromGCS\<close>

lemma fst_restoreFromGCS_mkdirs [simp]: "fst (restoreFromGCS_mkdirs w paths) = Inr ()"
  by (induction paths) (simp_all add: Let_def split: sum.splits)

lemma setup_events_restoreFromGCS_mkdirs:
  "list_all setup_event (snd (restoreFromGCS_mkdirs w paths))"
  by (induction paths) (simp_all add: Let_def split: sum.splits)

lemma fst_restoreFromGCS_verify:
  "fst (restoreFromGCS_verify w paths) = Inr (\<exists>p \<in> set paths. existsSync w p = Inr True)"
  by (induction paths) (auto split: sum.splits)

lemma events_restoreFromGCS_verify:
  "set (snd (restoreFromGCS_verify w paths)) \<subseteq> range ExistsSync \<union> range Warning"
  by (induction paths) (auto simp: fst_restoreFromGCS_verify split: sum.splits if_splits)

lemma restoreFromGCS_transfer_result:
  "fst (restoreFromGCS_transfer w bucket gcsPath file cm paths) = Inr (Some gcsPath) \<or>
   fst (restoreFromGCS_transfer w bucket gcsPath file cm paths) = Inr None"
  by (simp add: restoreFromGCS_transfer_def restoreFromGCS_try_def fst_restoreFromGCS_verify
        split: sum.splits)

lemma restoreFromGCS_transfer_trace:
  "\<exists>mid. snd (restoreFromGCS_transfer w bucket gcsPath file cm paths) =
     DownloadFile bucket gcsPath file # mid @ [UnlinkFile file] \<and>
     (\<forall>ev \<in> set mid. \<not> local_service_event ev)"
  using events_restoreFromGCS_verify [of w paths]
  by (auto simp add: restoreFromGCS_transfer_def restoreFromGCS_try_def
        fst_restoreFromGCS_verify split: sum.splits)

lemma restoreFromGCS_transfer_last:
  "snd (restoreFromGCS_transfer w bucket gcsPath file cm paths) \<noteq> [] \<and>
   last (snd (restoreFromGCS_transfer w bucket gcsPath file cm paths)) = UnlinkFile file"
  by (simp add: restoreFromGCS_transfer_def)

lemma restoreFromGCS_transfer_DownloadFile:
  "DownloadFile b p f \<in> set (snd (restoreFromGCS_transfer w bucket gcsPath file cm paths))
   \<Longrightarrow> b = bucket \<and> p = gcsPath \<and> f = file"
  using events_restoreFromGCS_verify [of w paths]
  by (auto simp add: restoreFromGCS_transfer_def restoreFromGCS_try_def
        fst_restoreFromGCS_verify split: sum.splits if_splits)

lemma restoreFromGCS_transfer_empty_archive:
  "statSync w file = Inr 0 \<Longrightarrow>
   fst (restoreFromGCS_transfer w bucket gcsPath file cm paths) = Inr None"
  by (simp add: restoreFromGCS_transfer_def restoreFromGCS_try_def split: sum.splits)

subsection \<open>restoreFromGCS: the steps before the try statement\<close>

lemma setup_lookup_mkdirs:
  "list_all (\<lambda>ev. setup_event ev \<or> lookup_event ev) (snd (restoreFromGCS_mkdirs w paths))"
  using setup_events_restoreFromGCS_mkdirs [of w paths] by (simp add: list_all_iff)

lemma setup_lookup_findFileOnGCS:
  "list_all (\<lambda>ev. setup_event ev \<or> lookup_event ev)
     (snd (findFileOnGCS w bucket pathPrefix keys cm))"
  using lookup_events_findFileOnGCS [of w bucket pathPrefix keys cm] by (simp add: list_all_iff)

lemma restoreFromGCS_shape:
  "(list_all (\<lambda>ev. setup_event ev \<or> lookup_event ev)
      (snd (restoreFromGCS w paths primaryKey restoreKeys options)) \<and>
    (fst (restoreFromGCS w paths primaryKey restoreKeys options) = Inr None \<or>
     (\<exists>e. fst (restoreFromGCS w paths primaryKey restoreKeys options) = Inl e))) \<or>
   (\<exists>bucket prefixInput pathPrefix cm folder gcsPath.
      getInput w Inputs_GCSBucket = Inr bucket \<and>
      getInput w Inputs_GCSPathPrefix = Inr prefixInput \<and>
      pathPrefix = (if prefixInput = [] then DEFAULT_PATH_PREFIX else prefixInput) \<and>
      getCompressionMethod w = Inr cm \<and>
      bucketExists w bucket = Inr True \<and>
      createTempDirectory w = Inr folder \<and>
      find (object_found w bucket)
        (candidate_paths w pathPrefix cm
           (primaryKey # (case restoreKeys of None \<Rightarrow> [] | Some ks \<Rightarrow> ks))) = Some gcsPath \<and>
      (if (case options of None \<Rightarrow> False | Some opts \<Rightarrow> lookupOnly opts = Some True)
       then fst (restoreFromGCS w paths primaryKey restoreKeys options) = Inr (Some gcsPath) \<and>
            list_all (\<lambda>ev. setup_event ev \<or> lookup_event ev)
              (snd (restoreFromGCS w paths primaryKey restoreKeys options))
       else fst (restoreFromGCS w paths primaryKey restoreKeys options) =
              fst (restoreFromGCS_transfer w bucket gcsPath
                    (path_join w folder (getCacheFileName w cm)) cm paths) \<and>
            snd (restoreFromGCS w paths primaryKey restoreKeys options) =
              [NewStorage, GetInput Inputs_GCSBucket, GetInput Inputs_GCSPathPrefix,
               GetCompressionMethod, BucketExists bucket] @
              snd (restoreFromGCS_mkdirs w paths) @ [CreateTempDirectory] @
              snd (findFileOnGCS w bucket pathPrefix
                    (primaryKey # (case restoreKeys of None \<Rightarrow> [] | Some ks \<Rightarrow> ks)) cm) @
              snd (restoreFromGCS_transfer w bucket gcsPath
                    (path_join w folder (getCacheFileName w cm)) cm paths)))"
  by (simp add: restoreFromGCS_def Let_def fst_getGCSClient snd_getGCSClient fst_verifyBucket
        snd_verifyBucket fst_findFileOnGCS setup_lookup_mkdirs setup_lookup_findFileOnGCS
        find_candidate_not_empty
        split: sum.splits option.splits)
     (auto simp: find_candidate_not_empty)

lemma restoreFromGCS_reaches_transfer:
  assumes "ev \<in> set (snd (restoreFromGCS w paths primaryKey restoreKeys options))"
    and "\<not> setup_event ev" and "\<not> lookup_event ev"
  shows "\<exists>bucket gcsPath cm folder pre.
     ev \<in> set (snd (restoreFromGCS_transfer w bucket gcsPath
                      (path_join w folder (getCacheFileName w cm)) cm paths)) \<and>
     fst (restoreFromGCS w paths primaryKey restoreKeys options) =
       fst (restoreFromGCS_transfer w bucket gcsPath
             (path_join w folder (getCacheFileName w cm)) cm paths) \<and>
     snd (restoreFromGCS w paths primaryKey restoreKeys options) =
       pre @ snd (restoreFromGCS_transfer w bucket gcsPath
             (path_join w folder (getCacheFileName w cm)) cm paths) \<and>
     list_all (\<lambda>ev. setup_event ev \<or> lookup_event ev) pre"
proof -
  let ?R = "restoreFromGCS w paths primaryKey restoreKeys options"
  let ?keys = "primaryKey # (case restoreKeys of None \<Rightarrow> [] | Some ks \<Rightarrow> ks)"
  from assms have early: "\<not> list_all (\<lambda>ev. setup_event ev \<or> lookup_event ev) (snd ?R)"
    by (auto simp: list_all_iff)
  with restoreFromGCS_shape [of w paths primaryKey restoreKeys options]
  obtain bucket pathPrefix cm folder gcsPath where
    c: "if (case options of None \<Rightarrow> False | Some opts \<Rightarrow> lookupOnly opts = Some True)
       then fst ?R = Inr (Some gcsPath) \<and>
            list_all (\<lambda>ev. setup_event ev \<or> lookup_event ev) (snd ?R)
       else fst ?R = fst (restoreFromGCS_transfer w bucket gcsPath
                    (path_join w folder (getCacheFileName w cm)) cm paths) \<and>
            snd ?R =
              [NewStorage, GetInput Inputs_GCSBucket, GetInput Inputs_GCSPathPrefix,
               GetCompressionMethod, BucketExists bucket] @
              snd (restoreFromGCS_mkdirs w paths) @ [CreateTempDirectory] @
              snd (findFileOnGCS w bucket pathPrefix ?keys cm) @
              snd (restoreFromGCS_transfer w bucket gcsPath
                    (path_join w folder (getCacheFileName w cm)) cm paths)"
    by blast
  let ?T = "restoreFromGCS_transfer w bucket gcsPath
              (path_join w folder (getCacheFileName w cm)) cm paths"
  let ?pre = "[NewStorage, GetInput Inputs_GCSBucket, GetInput Inputs_GCSPathPrefix,
               GetCompressionMethod, BucketExists bucket] @
              snd (restoreFromGCS_mkdirs w paths) @ [CreateTempDirectory] @
              snd (findFileOnGCS w bucket pathPrefix ?keys cm)"
  from c early have r: "fst ?R = fst ?T" and t: "snd ?R = ?pre @ snd ?T"
    by (simp_all split: if_splits)
  have p: "list_all (\<lambda>ev. setup_event ev \<or> lookup_event ev) ?pre"
    using setup_lookup_mkdirs [of w paths]
      setup_lookup_findFileOnGCS [of w bucket pathPrefix ?keys cm]
    by simp
  with assms t have "ev \<in> set (snd ?T)"
    by (auto simp: list_all_iff)
  with r t p show ?thesis by blast
qed

lemma restoreFromGCS_no_local:
  assumes "ev \<in> set (snd (restoreFromGCS w paths primaryKey restoreKeys options))"
  shows "\<not> local_service_event ev"
proof (cases "setup_event ev \<or> lookup_event ev")
  case True
  then show ?thesis using setup_not_local lookup_not_local by blast
next
  case False
  with assms obtain bucket gcsPath cm folder where
    "ev \<in> set (snd (restoreFromGCS_transfer w bucket gcsPath
                      (path_join w folder (getCacheFileName w cm)) cm paths))"
    using restoreFromGCS_reaches_transfer [of ev w paths primaryKey restoreKeys options]
    by auto
  with restoreFromGCS_transfer_trace [of w bucket gcsPath
      "path_join w folder (getCacheFileName w cm)" cm paths]
  show ?thesis by auto
qed

lemma filter_local_restoreFromGCS:
  "filter local_service_event (snd (restoreFromGCS w paths primaryKey restoreKeys options)) = []"
  using restoreFromGCS_no_local [of _ w paths primaryKey restoreKeys options]
  by (auto simp: filter_empty_conv)

text \<open>
  A defined result of the remote restore is the first candidate path, in the order primary
  key, restore keys, whose object the probe finds.
\<close>

lemma restoreFromGCS_Some:
  assumes "fst (restoreFromGCS w paths primaryKey restoreKeys options) = Inr (Some r)"
  shows "\<exists>bucket prefixInput cm.
     getInput w Inputs_GCSBucket = Inr bucket \<and>
     getInput w Inputs_GCSPathPrefix = Inr prefixInput \<and>
     getCompressionMethod w = Inr cm \<and>
     find (object_found w bucket)
       (candidate_paths w (if prefixInput = [] then DEFAULT_PATH_PREFIX else prefixInput) cm
          (primaryKey # (case restoreKeys of None \<Rightarrow> [] | Some ks \<Rightarrow> ks))) = Some r"
proof -
  let ?R = "restoreFromGCS w paths primaryKey restoreKeys options"
  from assms restoreFromGCS_shape [of w paths primaryKey restoreKeys options]
  obtain bucket prefixInput pathPrefix cm folder gcsPath where
    i: "getInput w Inputs_GCSBucket = Inr bucket"
      "getInput w Inputs_GCSPathPrefix = Inr prefixInput"
      "pathPrefix = (if prefixInput = [] then DEFAULT_PATH_PREFIX else prefixInput)"
      "getCompressionMethod w = Inr cm"
    and f: "find (object_found w bucket)
        (candidate_paths w pathPrefix cm
           (primaryKey # (case restoreKeys of None \<Rightarrow> [] | Some ks \<Rightarrow> ks))) = Some gcsPath"
    and c: "if (case options of None \<Rightarrow> False | Some opts \<Rightarrow> lookupOnly opts = Some True)
       then fst ?R = Inr (Some gcsPath) \<and>
            list_all (\<lambda>ev. setup_event ev \<or> lookup_event ev) (snd ?R)
       else fst ?R = fst (restoreFromGCS_transfer w bucket gcsPath
                    (path_join w folder (getCacheFileName w cm)) cm paths) \<and>
            snd ?R =
              [NewStorage, GetInput Inputs_GCSBucket, GetInput Inputs_GCSPathPrefix,
               GetCompressionMethod, BucketExists bucket] @
              snd (restoreFromGCS_mkdirs w paths) @ [CreateTempDirectory] @
              snd (findFileOnGCS w bucket pathPrefix
                    (primaryKey # (case restoreKeys of None \<Rightarrow> [] | Some ks \<Rightarrow> ks)) cm) @
              snd (restoreFromGCS_transfer w bucket gcsPath
                    (path_join w folder (getCacheFileName w cm)) cm paths)"
    by auto
  from c assms restoreFromGCS_transfer_result [of w bucket gcsPath
      "path_join w folder (getCacheFileName w cm)" cm paths]
  have "r = gcsPath" by (auto split: if_splits)
  with i f show ?thesis by auto
qed

lemma restoreFromGCS_Some_not_empty:
  "fst (restoreFromGCS w paths primaryKey restoreKeys options) = Inr (Some r) \<Longrightarrow> r \<noteq> []"
  using restoreFromGCS_Some [of w paths primaryKey restoreKeys options r]
  by (auto dest: find_candidate_not_empty)

subsection \<open>The coordinator\<close>

lemma fst_isGCSAvailable:
  "fst (isGCSAvailable w) =
     Inr (case getInput w Inputs_GCSBucket of Inl e \<Rightarrow> False | Inr bucket \<Rightarrow> bucket \<noteq> [])"
  by (simp add: isGCSAvailable_def split: sum.splits)

lemma snd_isGCSAvailable: "snd (isGCSAvailable w) = [GetInput Inputs_GCSBucket]"
  by (simp add: isGCSAvailable_def split: sum.splits)

lemma fst_restoreCache:
  "fst (restoreCache w paths primaryKey restoreKeys options crossOs) =
     (if (\<exists>bucket. getInput w Inputs_GCSBucket = Inr bucket \<and> bucket \<noteq> []) \<and>
         (\<exists>r. fst (restoreFromGCS w paths primaryKey restoreKeys options) = Inr (Some r))
      then fst (restoreFromGCS w paths primaryKey restoreKeys options)
      else cache_restoreCache w paths primaryKey restoreKeys options crossOs)"
  using restoreFromGCS_Some_not_empty [of w paths primaryKey restoreKeys options]
  by (auto simp add: restoreCache_def fst_isGCSAvailable truthy_string_def
        split: sum.splits option.splits)

lemma snd_restoreCache:
  "snd (restoreCache w paths primaryKey restoreKeys options crossOs) =
     GetInput Inputs_GCSBucket #
     (if (\<exists>bucket. getInput w Inputs_GCSBucket = Inr bucket \<and> bucket \<noteq> [])
      then snd (restoreFromGCS w paths primaryKey restoreKeys options) @
           (case fst (restoreFromGCS w paths primaryKey restoreKeys options) of
              Inl e \<Rightarrow> [Warning (''Failed to restore from GCS: '' @ message e),
                         LocalRestoreCache paths primaryKey restoreKeys options crossOs]
            | Inr None \<Rightarrow> [LocalRestoreCache paths primaryKey restoreKeys options crossOs]
            | Inr (Some r) \<Rightarrow> [])
      else [LocalRestoreCache paths primaryKey restoreKeys options crossOs])"
  using restoreFromGCS_Some_not_empty [of w paths primaryKey restoreKeys options]
  by (auto simp add: restoreCache_def fst_isGCSAvailable snd_isGCSAvailable truthy_string_def
        split: sum.splits option.splits)

subsection \<open>Exact key match\<close>


section \<open>The claims\<close>

subsection \<open>C1: a failed remote save and the local cache service\<close>

text \<open>
  Claim C1: when a bucket is configured and the remote save fails with a non-positive
  result id (the bucket does not exist, say), \<^verbatim>\<open>saveCache\<close> falls back to the local cache
  service and returns its result; only a positive remote result skips the local tier.

  The code does not behave so. \<^verbatim>\<open>saveCache\<close> tests the remote result with
  \<^verbatim>\<open>if (result)\<close>, and \<^verbatim>\<open>saveToGCS\<close> reports every failure as \<open>-1\<close>, a truthy number:
  the branch that warns and falls back is taken for \<open>0\<close> only, which \<^verbatim>\<open>saveToGCS\<close> never
  returns. With a configured bucket that does not exist the run is: the bucket check
  fails, \<^verbatim>\<open>saveToGCS\<close> returns \<open>-1\<close>, \<^verbatim>\<open>saveCache\<close> returns \<open>-1\<close>; the local cache
  service, which would have saved under id \<open>7\<close>, is never called.
\<close>

theorem saveCache_missing_bucket_no_fallback:
  "saveCache missing_bucket_world [''p''] ''k'' None None =
     (Inr (- 1),
      [GetInput ''gcs-bucket'', NewStorage, GetInput ''gcs-bucket'',
       GetInput ''gcs-path-prefix'', GetCompressionMethod, BucketExists ''b'',
       Warning ''Bucket b does not exist or is not accessible'']) \<and>
   cache_saveCache missing_bucket_world [''p''] ''k'' None None = Inr 7"
  by (simp add: run_defs missing_bucket_world_def)

subsection \<open>C2: a save whose paths resolve to nothing\<close>

text \<open>
  Claim C2: when the path patterns of a save resolve to no path, the whole save fails fast
  as a configuration error, whatever the backend configuration: no network call is made
  and the error is not turned into a fallback to the local tier.

  As stated this fails. With a bucket configured, \<^verbatim>\<open>saveToGCS\<close> checks the bucket (a
  network call) before it resolves the paths, and the error it then throws is caught by
  \<^verbatim>\<open>saveCache\<close>, which warns and calls the local cache service: here the save returns
  the local id \<open>7\<close>.
\<close>

theorem saveCache_empty_paths_counterexample:
  "resolvePaths no_paths_world [''p''] = Inr [] \<and>
   saveCache no_paths_world [''p''] ''k'' None None =
     (Inr 7,
      [GetInput ''gcs-bucket'', NewStorage, GetInput ''gcs-bucket'',
       GetInput ''gcs-path-prefix'', GetCompressionMethod, BucketExists ''b'',
       ResolvePaths [''p''],
       Warning (''Failed to save to GCS: '' @ message PathValidationError),
       LocalSaveCache [''p''] ''k'' None None]) \<and>
   network_event (BucketExists ''b'')"
  by (simp add: run_defs no_paths_world_def PathValidationError_def)

text \<open>
  Claim C2, amended: when the remote save gets as far as resolving the paths and they
  resolve to nothing, \<^verbatim>\<open>saveToGCS\<close> throws the path validation error (it does not return
  a failure id) at once: the run ends with the path resolution, its only network call is
  the bucket check, and no temporary directory, archive or upload is made.
\<close>

theorem saveToGCS_empty_paths_raises:
  assumes "resolvePaths w paths = Inr []"
    and "ResolvePaths paths \<in> set (snd (saveToGCS w paths key))"
  shows "fst (saveToGCS w paths key) = Inl PathValidationError \<and>
         (\<exists>bucket. getInput w Inputs_GCSBucket = Inr bucket \<and>
            snd (saveToGCS w paths key) =
              [NewStorage, GetInput Inputs_GCSBucket, GetInput Inputs_GCSPathPrefix,
               GetCompressionMethod, BucketExists bucket, ResolvePaths paths])"
  using assms
  by (auto simp add: saveToGCS_def Let_def fst_getGCSClient snd_getGCSClient fst_verifyBucket
        snd_verifyBucket split: sum.splits option.splits if_splits)

theorem saveToGCS_empty_paths_raises_witness:
  "resolvePaths no_paths_world [''p''] = Inr [] \<and>
   ResolvePaths [''p''] \<in> set (snd (saveToGCS no_paths_world [''p''] ''k'')) \<and>
   fst (saveToGCS no_paths_world [''p''] ''k'') = Inl PathValidationError \<and>
   snd (saveToGCS no_paths_world [''p''] ''k'') =
     [NewStorage, GetInput Inputs_GCSBucket, GetInput Inputs_GCSPathPrefix,
      GetCompressionMethod, BucketExists ''b'', ResolvePaths [''p'']]"
proof -
  have h: "resolvePaths no_paths_world [''p''] = Inr []"
    by (simp add: no_paths_world_def)
  have r: "ResolvePaths [''p''] \<in> set (snd (saveToGCS no_paths_world [''p''] ''k''))"
    by (simp add: run_defs no_paths_world_def)
  have b: "getInput no_paths_world Inputs_GCSBucket = Inr ''b''"
    by (simp add: no_paths_world_def fair_world_def)
  from saveToGCS_empty_paths_raises [OF h r] h r b show ?thesis
    by auto
qed

subsection \<open>C3: the key resolver returns the first match in order\<close>

text \<open>
  Claim C3: for every list of candidate keys and every state of the remote store, the
  resolver probes the candidates in the given order, each at its path
  \<^verbatim>\<open>prefix/key.extension\<close>, and returns the first path that exists. The probes are the
  candidate paths up to and including the first that exists. Against a store that holds the
  object of \<open>k2\<close> only, the result is the path of \<open>k2\<close> and of no other key; when no
  candidate exists the result is \<^verbatim>\<open>undefined\<close>.
\<close>

theorem findFileOnGCS_first_match:
  "fst (findFileOnGCS w bucket pathPrefix keys cm) =
     Inr (find (object_found w bucket) (candidate_paths w pathPrefix cm keys)) \<and>
   probed_paths (snd (findFileOnGCS w bucket pathPrefix keys cm)) =
     takeWhile (\<lambda>p. \<not> object_found w bucket p) (candidate_paths w pathPrefix cm keys) @
     (case find (object_found w bucket) (candidate_paths w pathPrefix cm keys) of
        None \<Rightarrow> [] | Some p \<Rightarrow> [p]) \<and>
   (k2 \<in> set keys \<and> (\<forall>p. object_found w bucket p \<longleftrightarrow> p = getGCSPath w pathPrefix k2 cm) \<longrightarrow>
      fst (findFileOnGCS w bucket pathPrefix keys cm) =
        Inr (Some (getGCSPath w pathPrefix k2 cm)) \<and>
      (\<forall>k. k \<noteq> k2 \<longrightarrow>
         fst (findFileOnGCS w bucket pathPrefix keys cm) \<noteq>
           Inr (Some (getGCSPath w pathPrefix k cm)))) \<and>
   ((\<forall>k \<in> set keys. \<not> object_found w bucket (getGCSPath w pathPrefix k cm)) \<longrightarrow>
      fst (findFileOnGCS w bucket pathPrefix keys cm) = Inr None)"
proof (intro conjI impI)
  show "fst (findFileOnGCS w bucket pathPrefix keys cm) =
     Inr (find (object_found w bucket) (candidate_paths w pathPrefix cm keys))"
    by (rule fst_findFileOnGCS)
  show "probed_paths (snd (findFileOnGCS w bucket pathPrefix keys cm)) =
     takeWhile (\<lambda>p. \<not> object_found w bucket p) (candidate_paths w pathPrefix cm keys) @
     (case find (object_found w bucket) (candidate_paths w pathPrefix cm keys) of
        None \<Rightarrow> [] | Some p \<Rightarrow> [p])"
    by (rule probed_paths_findFileOnGCS)
next
  assume a: "k2 \<in> set keys \<and>
    (\<forall>p. object_found w bucket p \<longleftrightarrow> p = getGCSPath w pathPrefix k2 cm)"
  then have "getGCSPath w pathPrefix k2 cm \<in> set (candidate_paths w pathPrefix cm keys)"
    by (simp add: candidate_paths_def)
  with a have "find (object_found w bucket) (candidate_paths w pathPrefix cm keys) =
      Some (getGCSPath w pathPrefix k2 cm)"
    by (blast intro: find_unique)
  then show f: "fst (findFileOnGCS w bucket pathPrefix keys cm) =
      Inr (Some (getGCSPath w pathPrefix k2 cm))"
    by (simp add: fst_findFileOnGCS)
  show "\<forall>k. k \<noteq> k2 \<longrightarrow>
      fst (findFileOnGCS w bucket pathPrefix keys cm) \<noteq> Inr (Some (getGCSPath w pathPrefix k cm))"
    by (simp add: f)
next
  assume "\<forall>k \<in> set keys. \<not> object_found w bucket (getGCSPath w pathPrefix k cm)"
  then show "fst (findFileOnGCS w bucket pathPrefix keys cm) = Inr None"
    by (simp add: fst_findFileOnGCS find_None_iff candidate_paths_def)
qed

theorem findFileOnGCS_first_match_witness:
  "''k2'' \<in> set [''k1'', ''k2'', ''k3''] \<and>
   fst (findFileOnGCS only_k2_world ''b'' ''github-cache'' [''k1'', ''k2'', ''k3''] Zstd) =
     Inr (Some ''github-cache/k2.cache.tzst'') \<and>
   probed_paths
     (snd (findFileOnGCS only_k2_world ''b'' ''github-cache'' [''k1'', ''k2'', ''k3''] Zstd)) =
     [''github-cache/k1.cache.tzst'', ''github-cache/k2.cache.tzst''] \<and>
   fst (findFileOnGCS lost_upload_world ''b'' ''github-cache'' [''k1'', ''k2'', ''k3''] Zstd) =
     Inr None"
proof -
  have p: "getGCSPath only_k2_world ''github-cache'' ''k2'' Zstd = ''github-cache/k2.cache.tzst''"
    by (simp add: getGCSPath_def only_k2_world_def fair_world_def)
  have h: "''k2'' \<in> set [''k1'', ''k2'', ''k3''] \<and>
    (\<forall>p. object_found only_k2_world ''b'' p \<longleftrightarrow>
       p = getGCSPath only_k2_world ''github-cache'' ''k2'' Zstd)"
    by (simp add: p) (simp add: object_found_def only_k2_world_def)
  have n: "\<forall>k \<in> set [''k1'', ''k2'', ''k3''].
    \<not> object_found lost_upload_world ''b'' (getGCSPath lost_upload_world ''github-cache'' k Zstd)"
    by (simp add: object_found_def lost_upload_world_def)
  have t: "probed_paths
     (snd (findFileOnGCS only_k2_world ''b'' ''github-cache'' [''k1'', ''k2'', ''k3''] Zstd)) =
     [''github-cache/k1.cache.tzst'', ''github-cache/k2.cache.tzst'']"
    using findFileOnGCS_first_match
      [of only_k2_world "''b''" "''github-cache''" "[''k1'', ''k2'', ''k3'']" Zstd "''k2''"]
    by (simp add: candidate_paths_def object_found_def getGCSPath_def only_k2_world_def
          fair_world_def)
  from findFileOnGCS_first_match
      [of only_k2_world "''b''" "''github-cache''" "[''k1'', ''k2'', ''k3'']" Zstd "''k2''"] h
  have "fst (findFileOnGCS only_k2_world ''b'' ''github-cache'' [''k1'', ''k2'', ''k3''] Zstd) =
     Inr (Some (getGCSPath only_k2_world ''github-cache'' ''k2'' Zstd))"
    by blast
  moreover from findFileOnGCS_first_match
      [of lost_upload_world "''b''" "''github-cache''" "[''k1'', ''k2'', ''k3'']" Zstd "''k2''"] n
  have "fst (findFileOnGCS lost_upload_world ''b'' ''github-cache'' [''k1'', ''k2'', ''k3''] Zstd)
     = Inr None"
    by blast
  ultimately show ?thesis using t by (simp add: p)
qed

subsection \<open>C4: restore tries the remote tier, then the local cache service\<close>

text \<open>
  Claim C4: with a bucket configured, a defined result of the remote restore is returned
  by \<^verbatim>\<open>restoreCache\<close> and the local cache service is not called; when the remote restore
  throws or returns \<^verbatim>\<open>undefined\<close>, \<^verbatim>\<open>restoreCache\<close> calls the local cache service once
  and returns its outcome unchanged.
\<close>

theorem restoreCache_remote_then_local:
  assumes "getInput w Inputs_GCSBucket = Inr bucket" and "bucket \<noteq> []"
  shows "(\<forall>r. fst (restoreFromGCS w paths primaryKey restoreKeys options) = Inr (Some r) \<longrightarrow>
            fst (restoreCache w paths primaryKey restoreKeys options crossOs) = Inr (Some r) \<and>
            filter local_service_event
              (snd (restoreCache w paths primaryKey restoreKeys options crossOs)) = []) \<and>
         (fst (restoreFromGCS w paths primaryKey restoreKeys options) = Inr None \<or>
          (\<exists>e. fst (restoreFromGCS w paths primaryKey restoreKeys options) = Inl e) \<longrightarrow>
            fst (restoreCache w paths primaryKey restoreKeys options crossOs) =
              cache_restoreCache w paths primaryKey restoreKeys options crossOs \<and>
            filter local_service_event
              (snd (restoreCache w paths primaryKey restoreKeys options crossOs)) =
              [LocalRestoreCache paths primaryKey restoreKeys options crossOs])"
  using assms
  by (auto simp add: fst_restoreCache snd_restoreCache filter_local_restoreFromGCS)

theorem restoreCache_remote_then_local_witness:
  "getInput fair_world Inputs_GCSBucket = Inr ''b'' \<and>
   fst (restoreFromGCS fair_world [''p''] ''k'' None None) =
     Inr (Some ''github-cache/k.cache.tzst'') \<and>
   fst (restoreCache fair_world [''p''] ''k'' None None None) =
     Inr (Some ''github-cache/k.cache.tzst'') \<and>
   filter local_service_event (snd (restoreCache fair_world [''p''] ''k'' None None None)) = [] \<and>
   fst (restoreFromGCS remote_miss_world [''p''] ''k'' None None) = Inr None \<and>
   fst (restoreCache remote_miss_world [''p''] ''k'' None None None) = Inr (Some ''k'') \<and>
   filter local_service_event (snd (restoreCache remote_miss_world [''p''] ''k'' None None None)) =
     [LocalRestoreCache [''p''] ''k'' None None None] \<and>
   fst (restoreFromGCS broken_tempdir_world [''p''] ''k'' None None) = Inl (Error ''ENOSPC'') \<and>
   fst (restoreCache broken_tempdir_world [''p''] ''k'' None None None) = Inr (Some ''k'') \<and>
   filter local_service_event
     (snd (restoreCache broken_tempdir_world [''p''] ''k'' None None None)) =
     [LocalRestoreCache [''p''] ''k'' None None None]"
proof -
  have a: "getInput fair_world Inputs_GCSBucket = Inr ''b''"
    by (simp add: fair_world_def)
  have b: "getInput remote_miss_world Inputs_GCSBucket = Inr ''b''"
    by (simp add: remote_miss_world_def fair_world_def)
  have c: "getInput broken_tempdir_world Inputs_GCSBucket = Inr ''b''"
    by (simp add: broken_tempdir_world_def remote_miss_world_def fair_world_def)
  have n: "''b'' \<noteq> []" by simp
  have r: "fst (restoreFromGCS fair_world [''p''] ''k'' None None) =
      Inr (Some ''github-cache/k.cache.tzst'')"
    by (simp add: run_defs)
  have m: "fst (restoreFromGCS remote_miss_world [''p''] ''k'' None None) = Inr None"
    by (simp add: run_defs remote_miss_world_def)
  have x: "fst (restoreFromGCS broken_tempdir_world [''p''] ''k'' None None) =
      Inl (Error ''ENOSPC'')"
    by (simp add: run_defs broken_tempdir_world_def remote_miss_world_def)
  have l: "cache_restoreCache remote_miss_world [''p''] ''k'' None None None = Inr (Some ''k'')"
    "cache_restoreCache broken_tempdir_world [''p''] ''k'' None None None = Inr (Some ''k'')"
    by (simp_all add: broken_tempdir_world_def remote_miss_world_def)
  from restoreCache_remote_then_local [OF a n, of "[''p'']" "''k''" None None None] r
    restoreCache_remote_then_local [OF b n, of "[''p'']" "''k''" None None None] m
    restoreCache_remote_then_local [OF c n, of "[''p'']" "''k''" None None None] x l a
  show ?thesis by simp
qed

subsection \<open>C5: an archive of zero bytes is a failure of the remote attempt\<close>

text \<open>
  Claim C5: a remote save whose archive step was started (\<^verbatim>\<open>createTar\<close> was called) and
  whose archive file has zero bytes returns the failure id \<open>-1\<close>; a remote restore that
  started the download and whose downloaded archive file has zero bytes returns
  \<^verbatim>\<open>undefined\<close>. Neither is ever a success, whatever the other collaborators answer:
  the size check is not assumed to be reached, it is what the code does (or the attempt
  has failed before it).
\<close>

theorem empty_archive_is_failure:
  "(CreateTar folder cachePaths cm \<in> set (snd (saveToGCS w paths key)) \<and>
      statSync w (path_join w folder (getCacheFileName w cm)) = Inr 0 \<longrightarrow>
      fst (saveToGCS w paths key) = Inr (- 1)) \<and>
   (DownloadFile bucket gcsPath file
        \<in> set (snd (restoreFromGCS w paths primaryKey restoreKeys options)) \<and>
      statSync w file = Inr 0 \<longrightarrow>
      fst (restoreFromGCS w paths primaryKey restoreKeys options) = Inr None)"
proof (intro conjI impI)
  assume a: "CreateTar folder cachePaths cm \<in> set (snd (saveToGCS w paths key)) \<and>
      statSync w (path_join w folder (getCacheFileName w cm)) = Inr 0"
  then obtain b pathPrefix cm' folder' cachePaths' where
    s: "CreateTar folder cachePaths cm
          \<in> set (snd (saveToGCS_transfer w b pathPrefix key cm' folder'
                      (path_join w folder' (getCacheFileName w cm')) cachePaths'))"
    and r: "fst (saveToGCS w paths key) =
       fst (saveToGCS_transfer w b pathPrefix key cm' folder'
             (path_join w folder' (getCacheFileName w cm')) cachePaths')"
    using saveToGCS_reaches_transfer [of "CreateTar folder cachePaths cm" w paths key] by auto
  from s have "folder' = folder" "cm' = cm"
    using saveToGCS_transfer_CreateTar [of folder cachePaths cm] by blast+
  with a r show "fst (saveToGCS w paths key) = Inr (- 1)"
    by (simp add: saveToGCS_transfer_empty_archive)
next
  let ?R = "restoreFromGCS w paths primaryKey restoreKeys options"
  assume a: "DownloadFile bucket gcsPath file \<in> set (snd ?R) \<and> statSync w file = Inr 0"
  then obtain b gcsPath' cm folder where
    s: "DownloadFile bucket gcsPath file
          \<in> set (snd (restoreFromGCS_transfer w b gcsPath'
                      (path_join w folder (getCacheFileName w cm)) cm paths))"
    and r: "fst ?R = fst (restoreFromGCS_transfer w b gcsPath'
             (path_join w folder (getCacheFileName w cm)) cm paths)"
    using restoreFromGCS_reaches_transfer
      [of "DownloadFile bucket gcsPath file" w paths primaryKey restoreKeys options]
    by auto
  from s have "path_join w folder (getCacheFileName w cm) = file"
    using restoreFromGCS_transfer_DownloadFile [of bucket gcsPath "file"] by blast
  with a r show "fst ?R = Inr None"
    by (simp add: restoreFromGCS_transfer_empty_archive)
qed

theorem empty_archive_is_failure_witness:
  "CreateTar ''t'' [''p''] Zstd \<in> set (snd (saveToGCS empty_archive_world [''p''] ''k'')) \<and>
   DownloadFile ''b'' ''github-cache/k.cache.tzst'' ''t/cache.tzst''
     \<in> set (snd (restoreFromGCS empty_archive_world [''p''] ''k'' None None)) \<and>
   statSync empty_archive_world ''t/cache.tzst'' = Inr 0 \<and>
   fst (saveToGCS empty_archive_world [''p''] ''k'') = Inr (- 1) \<and>
   fst (restoreFromGCS empty_archive_world [''p''] ''k'' None None) = Inr None \<and>
   CreateTar ''t'' [''p''] Zstd
     \<in> set (snd (saveToGCS unlisted_empty_archive_world [''p''] ''k'')) \<and>
   StatSync ''t/cache.tzst'' \<notin> set (snd (saveToGCS unlisted_empty_archive_world [''p''] ''k'')) \<and>
   statSync unlisted_empty_archive_world ''t/cache.tzst'' = Inr 0 \<and>
   fst (saveToGCS unlisted_empty_archive_world [''p''] ''k'') = Inr (- 1)"
proof -
  have c: "CreateTar ''t'' [''p''] Zstd \<in> set (snd (saveToGCS empty_archive_world [''p''] ''k''))"
    by (simp add: run_defs empty_archive_world_def)
  have d: "DownloadFile ''b'' ''github-cache/k.cache.tzst'' ''t/cache.tzst''
     \<in> set (snd (restoreFromGCS empty_archive_world [''p''] ''k'' None None))"
    by (simp add: run_defs empty_archive_world_def)
  have z: "statSync empty_archive_world ''t/cache.tzst'' = Inr 0"
    "path_join empty_archive_world ''t'' (getCacheFileName empty_archive_world Zstd) =
       ''t/cache.tzst''"
    by (simp_all add: empty_archive_world_def fair_world_def)
  have c': "CreateTar ''t'' [''p''] Zstd
     \<in> set (snd (saveToGCS unlisted_empty_archive_world [''p''] ''k''))"
    and n: "StatSync ''t/cache.tzst''
     \<notin> set (snd (saveToGCS unlisted_empty_archive_world [''p''] ''k''))"
    by (simp_all add: run_defs unlisted_empty_archive_world_def empty_archive_world_def)
  have z': "statSync unlisted_empty_archive_world ''t/cache.tzst'' = Inr 0"
    "path_join unlisted_empty_archive_world ''t''
       (getCacheFileName unlisted_empty_archive_world Zstd) = ''t/cache.tzst''"
    by (simp_all add: unlisted_empty_archive_world_def empty_archive_world_def fair_world_def)
  from empty_archive_is_failure
    [of "''t''" "[''p'']" Zstd empty_archive_world "[''p'']" "''k''" "''b''"
      "''github-cache/k.cache.tzst''" "''t/cache.tzst''" "''k''" None None] c d z
  have "fst (saveToGCS empty_archive_world [''p''] ''k'') = Inr (- 1)"
    "fst (restoreFromGCS empty_archive_world [''p''] ''k'' None None) = Inr None"
    by simp_all
  moreover from empty_archive_is_failure
    [of "''t''" "[''p'']" Zstd unlisted_empty_archive_world "[''p'']" "''k''" "''b''"
      "''github-cache/k.cache.tzst''" "''t/cache.tzst''" "''k''" None None] c' z'
  have "fst (saveToGCS unlisted_empty_archive_world [''p''] ''k'') = Inr (- 1)"
    by simp
  ultimately show ?thesis using c d z c' n z' by simp
qed

subsection \<open>C6: the probe after the upload decides the success of a remote save\<close>

text \<open>
  Claim C6: a remote save that reaches the upload returns the success id \<open>1\<close> exactly
  when the existence probe of the uploaded object is made and answers that the object
  exists; otherwise it returns \<open>-1\<close>. The probe is made exactly when the upload call
  completed without error, so that call completing is not by itself a success. The probed
  path is the computed object path of the key.
\<close>

theorem saveToGCS_success_iff_probe:
  assumes "UploadFile bucket file gcsPath \<in> set (snd (saveToGCS w paths key))"
  shows "(fst (saveToGCS w paths key) = Inr 1 \<longleftrightarrow>
            FileExists bucket gcsPath \<in> set (snd (saveToGCS w paths key)) \<and>
            fileExists w bucket gcsPath = Inr True) \<and>
         (fst (saveToGCS w paths key) = Inr 1 \<or> fst (saveToGCS w paths key) = Inr (- 1)) \<and>
         (FileExists bucket gcsPath \<in> set (snd (saveToGCS w paths key)) \<longleftrightarrow>
            uploadFile w bucket file gcsPath = Inr ()) \<and>
         (\<exists>prefixInput cm.
            getInput w Inputs_GCSBucket = Inr bucket \<and>
            getInput w Inputs_GCSPathPrefix = Inr prefixInput \<and>
            getCompressionMethod w = Inr cm \<and>
            gcsPath = getGCSPath w
              (if prefixInput = [] then DEFAULT_PATH_PREFIX else prefixInput) key cm)"
proof -
  from assms obtain b prefixInput pathPrefix cm folder cachePaths pre where
    i: "getInput w Inputs_GCSBucket = Inr b"
      "getInput w Inputs_GCSPathPrefix = Inr prefixInput"
      "pathPrefix = (if prefixInput = [] then DEFAULT_PATH_PREFIX else prefixInput)"
      "getCompressionMethod w = Inr cm"
    and u: "UploadFile bucket file gcsPath \<in> set (snd (saveToGCS_transfer w b pathPrefix key cm folder
                      (path_join w folder (getCacheFileName w cm)) cachePaths))"
    and r: "fst (saveToGCS w paths key) =
       fst (saveToGCS_transfer w b pathPrefix key cm folder
             (path_join w folder (getCacheFileName w cm)) cachePaths)"
    and t: "snd (saveToGCS w paths key) =
       pre @ snd (saveToGCS_transfer w b pathPrefix key cm folder
             (path_join w folder (getCacheFileName w cm)) cachePaths)"
    and p: "list_all setup_event pre"
    using saveToGCS_reaches_transfer [of "UploadFile bucket file gcsPath" w paths key] by auto
  let ?T = "saveToGCS_transfer w b pathPrefix key cm folder
             (path_join w folder (getCacheFileName w cm)) cachePaths"
  from u have e: "bucket = b" "file = path_join w folder (getCacheFileName w cm)"
    "gcsPath = getGCSPath w pathPrefix key cm"
    using saveToGCS_transfer_UploadFile [of bucket "file" gcsPath] by blast+
  from p have "FileExists bucket gcsPath \<notin> set pre"
    using setup_event_in [of pre "FileExists bucket gcsPath"] by auto
  with t have f: "FileExists bucket gcsPath \<in> set (snd (saveToGCS w paths key)) \<longleftrightarrow>
      FileExists bucket gcsPath \<in> set (snd ?T)"
    by simp
  from i e have x: "\<exists>prefixInput cm.
            getInput w Inputs_GCSBucket = Inr bucket \<and>
            getInput w Inputs_GCSPathPrefix = Inr prefixInput \<and>
            getCompressionMethod w = Inr cm \<and>
            gcsPath = getGCSPath w
              (if prefixInput = [] then DEFAULT_PATH_PREFIX else prefixInput) key cm"
    by blast
  have "(fst (saveToGCS w paths key) = Inr 1 \<longleftrightarrow>
            FileExists bucket gcsPath \<in> set (snd (saveToGCS w paths key)) \<and>
            fileExists w bucket gcsPath = Inr True) \<and>
         (fst (saveToGCS w paths key) = Inr 1 \<or> fst (saveToGCS w paths key) = Inr (- 1)) \<and>
         (FileExists bucket gcsPath \<in> set (snd (saveToGCS w paths key)) \<longleftrightarrow>
            uploadFile w bucket file gcsPath = Inr ())"
    using saveToGCS_transfer_success [of w b pathPrefix key cm folder
        "path_join w folder (getCacheFileName w cm)" cachePaths]
      saveToGCS_transfer_result [of w b pathPrefix key cm folder
        "path_join w folder (getCacheFileName w cm)" cachePaths]
      saveToGCS_transfer_FileExists [of bucket gcsPath w b pathPrefix key cm folder
        "path_join w folder (getCacheFileName w cm)" cachePaths]
      u
    unfolding f r unfolding e by blast
  with x show ?thesis by blast
qed

theorem saveToGCS_success_iff_probe_witness:
  "UploadFile ''b'' ''t/cache.tzst'' ''github-cache/k.cache.tzst''
     \<in> set (snd (saveToGCS fair_world [''p''] ''k'')) \<and>
   fileExists fair_world ''b'' ''github-cache/k.cache.tzst'' = Inr True \<and>
   fst (saveToGCS fair_world [''p''] ''k'') = Inr 1 \<and>
   UploadFile ''b'' ''t/cache.tzst'' ''github-cache/k.cache.tzst''
     \<in> set (snd (saveToGCS lost_upload_world [''p''] ''k'')) \<and>
   uploadFile lost_upload_world ''b'' ''t/cache.tzst'' ''github-cache/k.cache.tzst'' = Inr () \<and>
   fileExists lost_upload_world ''b'' ''github-cache/k.cache.tzst'' = Inr False \<and>
   fst (saveToGCS lost_upload_world [''p''] ''k'') = Inr (- 1)"
proof -
  have u: "UploadFile ''b'' ''t/cache.tzst'' ''github-cache/k.cache.tzst''
     \<in> set (snd (saveToGCS fair_world [''p''] ''k''))"
    by (simp add: run_defs)
  have v: "UploadFile ''b'' ''t/cache.tzst'' ''github-cache/k.cache.tzst''
     \<in> set (snd (saveToGCS lost_upload_world [''p''] ''k''))"
    by (simp add: run_defs lost_upload_world_def)
  have e: "fileExists fair_world ''b'' ''github-cache/k.cache.tzst'' = Inr True"
    "uploadFile fair_world ''b'' ''t/cache.tzst'' ''github-cache/k.cache.tzst'' = Inr ()"
    by (simp_all add: fair_world_def)
  have f: "fileExists lost_upload_world ''b'' ''github-cache/k.cache.tzst'' = Inr False"
    "uploadFile lost_upload_world ''b'' ''t/cache.tzst'' ''github-cache/k.cache.tzst'' = Inr ()"
    by (simp_all add: lost_upload_world_def fair_world_def)
  from saveToGCS_success_iff_probe [OF u] saveToGCS_success_iff_probe [OF v] u v e f
  show ?thesis by auto
qed

subsection \<open>C7: an erroring probe counts as not found\<close>

text \<open>
  Claim C7: when the probe of a candidate raises an error (and no earlier candidate was
  found, so that the candidate is reached), the resolver logs the error, both in
  \<^verbatim>\<open>checkFileExists\<close> and in its own loop, and goes on: its result is that of resolving
  the candidates after it, the first of them whose probe answers \<^verbatim>\<open>true\<close>.
\<close>

theorem findFileOnGCS_error_is_not_found:
  assumes "fileExists w bucket (getGCSPath w pathPrefix key cm) = Inl e"
    and "\<forall>k \<in> set before. \<not> object_found w bucket (getGCSPath w pathPrefix k cm)"
  shows "fst (findFileOnGCS w bucket pathPrefix (before @ key # rest) cm) =
           Inr (find (object_found w bucket) (candidate_paths w pathPrefix cm rest)) \<and>
         fst (findFileOnGCS w bucket pathPrefix (before @ key # rest) cm) =
           fst (findFileOnGCS w bucket pathPrefix rest cm) \<and>
         FileExists bucket (getGCSPath w pathPrefix key cm)
           \<in> set (snd (findFileOnGCS w bucket pathPrefix (before @ key # rest) cm)) \<and>
         Warning (''Error checking file existence: '' @ message e)
           \<in> set (snd (findFileOnGCS w bucket pathPrefix (before @ key # rest) cm)) \<and>
         Warning (''Error checking if file exists at '' @ bucket @ ''/'' @
             getGCSPath w pathPrefix key cm @ '': '' @ message e)
           \<in> set (snd (findFileOnGCS w bucket pathPrefix (before @ key # rest) cm))"
proof -
  let ?P = "object_found w bucket"
  from assms(1) have k: "\<not> ?P (getGCSPath w pathPrefix key cm)"
    by (simp add: object_found_def)
  with assms(2) have "\<forall>p \<in> set (candidate_paths w pathPrefix cm (before @ [key])). \<not> ?P p"
    by (auto simp: candidate_paths_def)
  then have "find ?P (candidate_paths w pathPrefix cm (before @ [key]) @
                 candidate_paths w pathPrefix cm rest) =
             find ?P (candidate_paths w pathPrefix cm rest)"
    by (rule find_append_none)
  then have r: "find ?P (candidate_paths w pathPrefix cm (before @ key # rest)) =
             find ?P (candidate_paths w pathPrefix cm rest)"
    by (simp add: candidate_paths_def)
  from assms(2) obtain pre where
    "snd (findFileOnGCS_keys w bucket pathPrefix cm (before @ key # rest)) =
       pre @ snd (findFileOnGCS_keys w bucket pathPrefix cm (key # rest))"
    using snd_findFileOnGCS_keys_skip [of before w bucket pathPrefix cm "key # rest"] by blast
  with snd_findFileOnGCS_keys_error [OF assms(1), of rest]
  have "{FileExists bucket (getGCSPath w pathPrefix key cm),
         Warning (''Error checking file existence: '' @ message e),
         Warning (''Error checking if file exists at '' @ bucket @ ''/'' @
           getGCSPath w pathPrefix key cm @ '': '' @ message e)}
        \<subseteq> set (snd (findFileOnGCS_keys w bucket pathPrefix cm (before @ key # rest)))"
    by simp
  with snd_findFileOnGCS_keys_subset [of w bucket pathPrefix cm "before @ key # rest"]
  have "{FileExists bucket (getGCSPath w pathPrefix key cm),
         Warning (''Error checking file existence: '' @ message e),
         Warning (''Error checking if file exists at '' @ bucket @ ''/'' @
           getGCSPath w pathPrefix key cm @ '': '' @ message e)}
        \<subseteq> set (snd (findFileOnGCS w bucket pathPrefix (before @ key # rest) cm))"
    by blast
  with r show ?thesis
    by (simp add: fst_findFileOnGCS)
qed

theorem findFileOnGCS_error_is_not_found_witness:
  "fileExists erroring_probe_world ''b'' ''github-cache/k1.cache.tzst'' = Inl (Error ''timeout'') \<and>
   fst (findFileOnGCS erroring_probe_world ''b'' ''github-cache'' [''k1'', ''k2'', ''k3''] Zstd) =
     Inr (Some ''github-cache/k2.cache.tzst'') \<and>
   Warning ''Error checking if file exists at b/github-cache/k1.cache.tzst: timeout''
     \<in> set (snd (findFileOnGCS erroring_probe_world ''b'' ''github-cache''
                   [''k1'', ''k2'', ''k3''] Zstd))"
proof -
  have p: "getGCSPath erroring_probe_world ''github-cache'' ''k1'' Zstd =
      ''github-cache/k1.cache.tzst''"
    by (simp add: getGCSPath_def erroring_probe_world_def fair_world_def)
  have e: "fileExists erroring_probe_world ''b''
      (getGCSPath erroring_probe_world ''github-cache'' ''k1'' Zstd) = Inl (Error ''timeout'')"
    by (simp add: p) (simp add: erroring_probe_world_def)
  have n: "\<forall>k \<in> set []. \<not> object_found erroring_probe_world ''b''
      (getGCSPath erroring_probe_world ''github-cache'' k Zstd)"
    by simp
  have f: "find (object_found erroring_probe_world ''b'')
      (candidate_paths erroring_probe_world ''github-cache'' Zstd [''k2'', ''k3'']) =
      Some ''github-cache/k2.cache.tzst''"
    by (simp add: candidate_paths_def object_found_def getGCSPath_def erroring_probe_world_def
          fair_world_def)
  from findFileOnGCS_error_is_not_found [OF e n, of "[''k2'', ''k3'']"] e f
  show ?thesis by (simp add: p)
qed

subsection \<open>C8: without a bucket the coordinator is the local cache service\<close>

text \<open>
  Claim C8: when no bucket is configured, \<^verbatim>\<open>restoreCache\<close> and \<^verbatim>\<open>saveCache\<close> read the
  bucket input, call the local cache service with their own arguments and return its
  outcome; nothing else happens: no client is created and no bucket is checked.
\<close>

theorem unconfigured_is_local_only:
  assumes "getInput w Inputs_GCSBucket = Inr []"
  shows "restoreCache w paths primaryKey restoreKeys options crossOs =
           (cache_restoreCache w paths primaryKey restoreKeys options crossOs,
            [GetInput Inputs_GCSBucket,
             LocalRestoreCache paths primaryKey restoreKeys options crossOs]) \<and>
         saveCache w paths key uploadOptions crossOs =
           (cache_saveCache w paths key uploadOptions crossOs,
            [GetInput Inputs_GCSBucket, LocalSaveCache paths key uploadOptions crossOs])"
  using assms
  by (simp add: prod_eq_iff restoreCache_def saveCache_def fst_isGCSAvailable snd_isGCSAvailable)

theorem unconfigured_is_local_only_witness:
  "getInput unconfigured_world Inputs_GCSBucket = Inr [] \<and>
   restoreCache unconfigured_world [''p''] ''k'' None None None =
     (Inr None, [GetInput Inputs_GCSBucket, LocalRestoreCache [''p''] ''k'' None None None]) \<and>
   saveCache unconfigured_world [''p''] ''k'' None None =
     (Inr 7, [GetInput Inputs_GCSBucket, LocalSaveCache [''p''] ''k'' None None])"
proof -
  have h: "getInput unconfigured_world Inputs_GCSBucket = Inr []"
    by (simp add: unconfigured_world_def)
  from unconfigured_is_local_only [OF h, of "[''p'']" "''k''" None None None "''k''" None] h
  show ?thesis by (simp add: unconfigured_world_def fair_world_def)
qed

subsection \<open>C9: the temporary archive is unlinked on every exit\<close>

text \<open>
  Claim C9: once the temporary archive of a remote save or restore was created, it is
  deleted before the attempt returns, on every exit path, so that no temporary archive
  outlives a call.

  As stated this fails: the \<^verbatim>\<open>finally\<close> block calls \<^verbatim>\<open>unlinkFile\<close> and drops its
  error. Where unlinking fails, the save returns \<open>1\<close> and the restore returns the object
  path, and the archive is still on disk.
\<close>

theorem archive_not_deleted_counterexample:
  "CreateTar ''t'' [''p''] Zstd \<in> set (snd (saveToGCS stuck_unlink_world [''p''] ''k'')) \<and>
   fst (saveToGCS stuck_unlink_world [''p''] ''k'') = Inr 1 \<and>
   \<not> deleted_in stuck_unlink_world (snd (saveToGCS stuck_unlink_world [''p''] ''k''))
       ''t/cache.tzst'' \<and>
   DownloadFile ''b'' ''github-cache/k.cache.tzst'' ''t/cache.tzst''
     \<in> set (snd (restoreFromGCS stuck_unlink_world [''p''] ''k'' None None)) \<and>
   fst (restoreFromGCS stuck_unlink_world [''p''] ''k'' None None) =
     Inr (Some ''github-cache/k.cache.tzst'') \<and>
   \<not> deleted_in stuck_unlink_world
       (snd (restoreFromGCS stuck_unlink_world [''p''] ''k'' None None)) ''t/cache.tzst''"
  by (simp add: run_defs stuck_unlink_world_def deleted_in_def)

text \<open>
  Claim C9, amended: once the archive step of a remote save (\<^verbatim>\<open>createTar\<close>) or restore
  (the download) was started, the last call of the attempt, on every exit path, is the
  unlinking of the temporary archive; the archive is deleted when that call succeeds, and
  a failure of it does not change the result of the attempt, which is a returned value
  and never a thrown error.
\<close>

theorem archive_unlinked_last:
  "(CreateTar folder cachePaths cm \<in> set (snd (saveToGCS w paths key)) \<longrightarrow>
      last (snd (saveToGCS w paths key)) =
        UnlinkFile (path_join w folder (getCacheFileName w cm)) \<and>
      (unlinkFile w (path_join w folder (getCacheFileName w cm)) = Inr () \<longrightarrow>
         deleted_in w (snd (saveToGCS w paths key))
           (path_join w folder (getCacheFileName w cm))) \<and>
      (fst (saveToGCS w paths key) = Inr 1 \<or> fst (saveToGCS w paths key) = Inr (- 1))) \<and>
   (DownloadFile bucket gcsPath file
        \<in> set (snd (restoreFromGCS w paths primaryKey restoreKeys options)) \<longrightarrow>
      last (snd (restoreFromGCS w paths primaryKey restoreKeys options)) = UnlinkFile file \<and>
      (unlinkFile w file = Inr () \<longrightarrow>
         deleted_in w (snd (restoreFromGCS w paths primaryKey restoreKeys options)) file) \<and>
      (fst (restoreFromGCS w paths primaryKey restoreKeys options) = Inr (Some gcsPath) \<or>
       fst (restoreFromGCS w paths primaryKey restoreKeys options) = Inr None))"
proof (intro conjI impI)
  let ?file = "path_join w folder (getCacheFileName w cm)"
  assume "CreateTar folder cachePaths cm \<in> set (snd (saveToGCS w paths key))"
  then obtain b pathPrefix cm' folder' cachePaths' pre where
    u: "CreateTar folder cachePaths cm \<in> set (snd (saveToGCS_transfer w b pathPrefix key cm' folder'
                      (path_join w folder' (getCacheFileName w cm')) cachePaths'))"
    and r: "fst (saveToGCS w paths key) =
       fst (saveToGCS_transfer w b pathPrefix key cm' folder'
             (path_join w folder' (getCacheFileName w cm')) cachePaths')"
    and t: "snd (saveToGCS w paths key) =
       pre @ snd (saveToGCS_transfer w b pathPrefix key cm' folder'
             (path_join w folder' (getCacheFileName w cm')) cachePaths')"
    using saveToGCS_reaches_transfer [of "CreateTar folder cachePaths cm" w paths key] by auto
  from u have e: "folder' = folder" "cachePaths' = cachePaths" "cm' = cm"
    using saveToGCS_transfer_CreateTar [of folder cachePaths cm] by blast+
  let ?T = "saveToGCS_transfer w b pathPrefix key cm folder ?file cachePaths"
  from t e saveToGCS_transfer_last [of w b pathPrefix key cm folder ?file cachePaths]
  show l: "last (snd (saveToGCS w paths key)) = UnlinkFile ?file"
    by simp
  from t e saveToGCS_transfer_last [of w b pathPrefix key cm folder ?file cachePaths]
  have "snd (saveToGCS w paths key) \<noteq> []" by simp
  with l have "UnlinkFile ?file \<in> set (snd (saveToGCS w paths key))"
    using last_in_set [of "snd (saveToGCS w paths key)"] by simp
  then show "deleted_in w (snd (saveToGCS w paths key)) ?file"
    if "unlinkFile w ?file = Inr ()"
    using that by (simp add: deleted_in_def)
  from r e saveToGCS_transfer_result [of w b pathPrefix key cm folder ?file cachePaths]
  show "fst (saveToGCS w paths key) = Inr 1 \<or> fst (saveToGCS w paths key) = Inr (- 1)"
    by simp
next
  let ?R = "restoreFromGCS w paths primaryKey restoreKeys options"
  assume "DownloadFile bucket gcsPath file \<in> set (snd ?R)"
  then obtain b gcsPath' cm folder pre where
    u: "DownloadFile bucket gcsPath file \<in> set (snd (restoreFromGCS_transfer w b gcsPath'
                      (path_join w folder (getCacheFileName w cm)) cm paths))"
    and r: "fst ?R = fst (restoreFromGCS_transfer w b gcsPath'
             (path_join w folder (getCacheFileName w cm)) cm paths)"
    and t: "snd ?R = pre @ snd (restoreFromGCS_transfer w b gcsPath'
             (path_join w folder (getCacheFileName w cm)) cm paths)"
    using restoreFromGCS_reaches_transfer
      [of "DownloadFile bucket gcsPath file" w paths primaryKey restoreKeys options]
    by auto
  from u have e: "b = bucket" "gcsPath' = gcsPath"
    "path_join w folder (getCacheFileName w cm) = file"
    using restoreFromGCS_transfer_DownloadFile [of bucket gcsPath "file"] by blast+
  from t e restoreFromGCS_transfer_last [of w bucket gcsPath "file" cm paths]
  show l: "last (snd ?R) = UnlinkFile file"
    by simp
  from t e restoreFromGCS_transfer_last [of w bucket gcsPath "file" cm paths]
  have "snd ?R \<noteq> []" by simp
  with l have "UnlinkFile file \<in> set (snd ?R)"
    using last_in_set [of "snd ?R"] by simp
  then show "deleted_in w (snd ?R) file" if "unlinkFile w file = Inr ()"
    using that by (simp add: deleted_in_def)
  from r e restoreFromGCS_transfer_result [of w bucket gcsPath "file" cm paths]
  show "fst ?R = Inr (Some gcsPath) \<or> fst ?R = Inr None"
    by simp
qed

theorem archive_unlinked_last_witness:
  "CreateTar ''t'' [''p''] Zstd \<in> set (snd (saveToGCS fair_world [''p''] ''k'')) \<and>
   DownloadFile ''b'' ''github-cache/k.cache.tzst'' ''t/cache.tzst''
     \<in> set (snd (restoreFromGCS fair_world [''p''] ''k'' None None)) \<and>
   unlinkFile fair_world ''t/cache.tzst'' = Inr () \<and>
   last (snd (saveToGCS fair_world [''p''] ''k'')) = UnlinkFile ''t/cache.tzst'' \<and>
   deleted_in fair_world (snd (saveToGCS fair_world [''p''] ''k'')) ''t/cache.tzst'' \<and>
   last (snd (restoreFromGCS fair_world [''p''] ''k'' None None)) = UnlinkFile ''t/cache.tzst'' \<and>
   deleted_in fair_world (snd (restoreFromGCS fair_world [''p''] ''k'' None None))
     ''t/cache.tzst''"
proof -
  have c: "CreateTar ''t'' [''p''] Zstd \<in> set (snd (saveToGCS fair_world [''p''] ''k''))"
    by (simp add: run_defs)
  have d: "DownloadFile ''b'' ''github-cache/k.cache.tzst'' ''t/cache.tzst''
     \<in> set (snd (restoreFromGCS fair_world [''p''] ''k'' None None))"
    by (simp add: run_defs)
  have u: "unlinkFile fair_world ''t/cache.tzst'' = Inr ()"
    "path_join fair_world ''t'' (getCacheFileName fair_world Zstd) = ''t/cache.tzst''"
    by (simp_all add: fair_world_def)
  from archive_unlinked_last
    [of "''t''" "[''p'']" Zstd fair_world "[''p'']" "''k''" "''b''" "''github-cache/k.cache.tzst''"
      "''t/cache.tzst''" "''k''" None None] c d u
  show ?thesis by simp
qed

subsection \<open>C10: a remote restore returns the object path, not the key\<close>




end
